theory Spec2Isabelle
  imports Main
begin

text \<open>
  A shallow embedding of the MySQL MCP server: the request handler \<open>handleRequest\<close>, the
  executor \<open>executeWithTimeout\<close> that races a statement against a timer, the timeout
  part of \<open>loadDbConfig\<close> and the \<open>line\<close> handler of \<open>main\<close>, in the version of the
  server that works on a connection pool.
\<close>

section \<open>JavaScript values as the server sees them\<close>

text \<open>
  A JavaScript string is a sequence of UTF-16 code units. Code units are natural numbers
  here, and \<open>ascii\<close> embeds the ASCII literals of the source.
\<close>

type_synonym jsstring = "nat list"

definition ascii :: "string \<Rightarrow> jsstring" where
  "ascii s = map of_char s"

text \<open>
  The values that \<open>JSON.parse\<close> and the database driver hand to the program. A number
  with an integer value is \<open>JNum\<close>; every other number (a fraction, an infinity, NaN) is
  \<open>JFrac\<close> over a type \<open>'f\<close> the model does not look into. An object is the list of its
  own properties.
\<close>

datatype 'f jsval =
    JUndefined
  | JNull
  | JBool bool
  | JNum int
  | JFrac 'f
  | JStr jsstring
  | JArr "'f jsval list"
  | JObj "(jsstring \<times> 'f jsval) list"

text \<open>
  The places of the source where the engine itself raises a TypeError, each with what the
  engine's text depends on: whether the value that was read from is undefined or null,
  and, for a method call, whether the receiver is one of these two or a value without
  the method. The text itself is the engine's and is asked from the host. The request
  data come from \<open>JSON.parse\<close>, which never gives undefined.
\<close>

datatype nullish_kind = Undefined_value | Null_value

datatype receiver = Nullish nullish_kind | Without_method

datatype type_error =
    Destructure_requestData
  | Destructure_params nullish_kind
  | Read_sql_of_args nullish_kind
  | Read_table_of_args nullish_kind
  | Read_id_of_first_row nullish_kind
  | Read_Name_of_row nullish_kind
  | Call_trim_of_sql receiver
  | Call_map_of_tables receiver
  | Not_convertible_to_primitive

datatype jserror =
    Error jsstring
  | TypeError type_error
  | DriverError jsstring

text \<open>
  The numbers the timeout can be: \<open>parseInt\<close> gives NaN, an integer value or an
  infinity, and a product or a floored quotient of such a number is again an integer
  value or an infinity.
\<close>

datatype jsnumber = Finite int | PlusInfinity | MinusInfinity

datatype parseInt_result = NaN | Parsed jsnumber

text \<open>
  What the source takes from the JavaScript engine and its libraries: these functions are
  not code of the repository and are parameters of the model. The three functions on
  large integers stand for the arithmetic of doubles from \<open>2^53\<close> on, where it is no
  longer the arithmetic of the integers: the digits the engine prints for such a value,
  its product with 1000 and the floor of its quotient by 1000.
\<close>

record 'f host =
  JSON_parse :: "jsstring \<Rightarrow> 'f jsval option"
  JSON_stringify :: "'f jsval \<Rightarrow> jsstring"
  JSON_stringify_indent :: "'f jsval \<Rightarrow> jsstring"
  toUpperCase :: "jsstring \<Rightarrow> jsstring"
  largeToString :: "int \<Rightarrow> jsstring"
  largeTimes1000 :: "int \<Rightarrow> jsnumber"
  largeFloorDiv1000 :: "int \<Rightarrow> jsnumber"
  fracToString :: "'f \<Rightarrow> jsstring"
  fracIsNaN :: "'f \<Rightarrow> bool"
  typeErrorMessage :: "type_error \<Rightarrow> jsstring"

definition message :: "'f host \<Rightarrow> jserror \<Rightarrow> jsstring" where
  "message h e =
     (case e of
        Error m \<Rightarrow> m
      | TypeError t \<Rightarrow> typeErrorMessage h t
      | DriverError m \<Rightarrow> m)"

subsection \<open>Property access\<close>

text \<open>
  \<open>v.k\<close> for the property names the source reads (id, method, params, name, arguments,
  sql, table, Name, Comment): none of them is inherited from a prototype, so a value
  other than an object gives undefined, and null and undefined raise.
\<close>

definition get_property :: "'f jsval \<Rightarrow> jsstring \<Rightarrow> 'f jsval" where
  "get_property v k =
     (case v of
        JObj kvs \<Rightarrow> (case map_of kvs k of None \<Rightarrow> JUndefined | Some x \<Rightarrow> x)
      | _ \<Rightarrow> JUndefined)"

definition nullish :: "'f jsval \<Rightarrow> bool" where
  "nullish v = (v = JUndefined \<or> v = JNull)"

definition kind_of :: "'f jsval \<Rightarrow> nullish_kind" where
  "kind_of v = (if v = JNull then Null_value else Undefined_value)"

definition receiver_of :: "'f jsval \<Rightarrow> receiver" where
  "receiver_of v = (if nullish v then Nullish (kind_of v) else Without_method)"

definition read_property ::
  "(nullish_kind \<Rightarrow> type_error) \<Rightarrow> 'f jsval \<Rightarrow> jsstring \<Rightarrow> jserror + 'f jsval" where
  "read_property site v k =
     (if nullish v then Inl (TypeError (site (kind_of v))) else Inr (get_property v k))"

subsection \<open>Conversion to a string in a template literal\<close>

function decimal :: "nat \<Rightarrow> jsstring" where
  "decimal n = (if n < 10 then [48 + n] else decimal (n div 10) @ [48 + n mod 10])"
  by pat_completeness auto
termination
  by (relation "measure id") auto

declare decimal.simps [simp del]

definition signed_decimal :: "int \<Rightarrow> jsstring" where
  "signed_decimal n = (if n < 0 then 45 # decimal (nat (- n)) else decimal (nat n))"

text \<open>
  \<open>Number.prototype.toString\<close> on an integer value: below \<open>2^53\<close> the digits of the
  integer; from there on the digits the engine chooses for the double, which need not
  be those of the integer.
\<close>

definition number_toString :: "'f host \<Rightarrow> int \<Rightarrow> jsstring" where
  "number_toString h n = (if \<bar>n\<bar> < 2 ^ 53 then signed_decimal n else largeToString h n)"

definition jsnumber_toString :: "'f host \<Rightarrow> jsnumber \<Rightarrow> jsstring" where
  "jsnumber_toString h x =
     (case x of
        Finite n \<Rightarrow> number_toString h n
      | PlusInfinity \<Rightarrow> ascii ''Infinity''
      | MinusInfinity \<Rightarrow> ascii ''-Infinity'')"

text \<open>
  \<open>x * 1000\<close> and \<open>Math.floor(x / 1000)\<close>: those of the integers while every value
  involved is below \<open>2^53\<close> in magnitude, the engine's beyond.
\<close>

definition times1000 :: "'f host \<Rightarrow> jsnumber \<Rightarrow> jsnumber" where
  "times1000 h x =
     (case x of
        Finite n \<Rightarrow> if \<bar>n\<bar> * 1000 < 2 ^ 53 then Finite (n * 1000) else largeTimes1000 h n
      | PlusInfinity \<Rightarrow> PlusInfinity
      | MinusInfinity \<Rightarrow> MinusInfinity)"

definition floor_div1000 :: "'f host \<Rightarrow> jsnumber \<Rightarrow> jsnumber" where
  "floor_div1000 h x =
     (case x of
        Finite n \<Rightarrow> if \<bar>n\<bar> < 2 ^ 53 then Finite (n div 1000) else largeFloorDiv1000 h n
      | PlusInfinity \<Rightarrow> PlusInfinity
      | MinusInfinity \<Rightarrow> MinusInfinity)"

fun join_with_comma :: "jsstring list \<Rightarrow> jsstring" where
  "join_with_comma [] = []"
| "join_with_comma [s] = s"
| "join_with_comma (s # t # ss) = s @ 44 # join_with_comma (t # ss)"

fun collect :: "(jserror + 'a) list \<Rightarrow> jserror + 'a list" where
  "collect [] = Inr []"
| "collect (Inl e # rs) = Inl e"
| "collect (Inr x # rs) = (case collect rs of Inl e \<Rightarrow> Inl e | Inr xs \<Rightarrow> Inr (x # xs))"

text \<open>
  \<open>`${v}`\<close>: an array joins the conversions of its elements, null and undefined
  elements giving the empty string; an object without an own \<open>toString\<close> property is
  \<open>[object Object]\<close>; with one (which, coming from JSON, is not callable) the conversion
  raises a TypeError.
\<close>

fun js_toString :: "'f host \<Rightarrow> 'f jsval \<Rightarrow> jserror + jsstring" where
  "js_toString h JUndefined = Inr (ascii ''undefined'')"
| "js_toString h JNull = Inr (ascii ''null'')"
| "js_toString h (JBool b) = Inr (if b then ascii ''true'' else ascii ''false'')"
| "js_toString h (JNum n) = Inr (number_toString h n)"
| "js_toString h (JFrac x) = Inr (fracToString h x)"
| "js_toString h (JStr s) = Inr s"
| "js_toString h (JArr xs) =
     (case collect (map (\<lambda>x. if nullish x then Inr [] else js_toString h x) xs) of
        Inl e \<Rightarrow> Inl e
      | Inr ss \<Rightarrow> Inr (join_with_comma ss))"
| "js_toString h (JObj kvs) =
     (if ascii ''toString'' \<in> fst ` set kvs
      then Inl (TypeError Not_convertible_to_primitive)
      else Inr (ascii ''[object Object]''))"

text \<open>\<open>v || ''\<close> tests whether \<open>v\<close> is falsy.\<close>

definition falsy :: "'f host \<Rightarrow> 'f jsval \<Rightarrow> bool" where
  "falsy h v =
     (case v of
        JUndefined \<Rightarrow> True
      | JNull \<Rightarrow> True
      | JBool b \<Rightarrow> \<not> b
      | JNum n \<Rightarrow> n = 0
      | JFrac x \<Rightarrow> fracIsNaN h x
      | JStr s \<Rightarrow> s = []
      | _ \<Rightarrow> False)"

subsection \<open>String operations of the executor\<close>

text \<open>\<open>String.prototype.trim\<close> removes white space and line terminators at both ends.\<close>

definition is_white_space :: "nat \<Rightarrow> bool" where
  "is_white_space c =
     (c \<in> {0x9, 0xA, 0xB, 0xC, 0xD, 0x20, 0xA0, 0x1680, 0x2028, 0x2029, 0x202F, 0x205F,
           0x3000, 0xFEFF}
      \<or> (0x2000 \<le> c \<and> c \<le> 0x200A))"

definition trim :: "jsstring \<Rightarrow> jsstring" where
  "trim s = rev (dropWhile is_white_space (rev (dropWhile is_white_space s)))"

definition startsWith :: "jsstring \<Rightarrow> jsstring \<Rightarrow> bool" where
  "startsWith s p = (take (length p) s = p)"

text \<open>
  \<open>/^SELECT/i\<close>: without the \<open>u\<close> flag a code unit matches an ASCII letter of the
  pattern when it is that letter in either case; no code unit from 128 on is folded
  into ASCII.
\<close>

definition ascii_upper :: "nat \<Rightarrow> nat" where
  "ascii_upper c = (if 97 \<le> c \<and> c \<le> 122 then c - 32 else c)"

definition matches_SELECT_i :: "jsstring \<Rightarrow> bool" where
  "matches_SELECT_i s = (map ascii_upper (take 6 s) = ascii ''SELECT'')"

text \<open>
  \<open>s.replace(/^SELECT/i, r)\<close>. The replacement text of the source holds no \<open>$\<close>, so it
  is inserted as it is.
\<close>

definition replace_SELECT_i :: "jsstring \<Rightarrow> jsstring \<Rightarrow> jsstring" where
  "replace_SELECT_i s r = (if matches_SELECT_i s then r @ drop 6 s else s)"

definition hint :: "'f host \<Rightarrow> jsnumber \<Rightarrow> jsstring" where
  "hint h queryTimeout =
     ascii '' /*+ MAX_EXECUTION_TIME('' @ jsnumber_toString h queryTimeout @ ascii '') */''"

text \<open>Lines 105 to 109 of the executor: the text that is sent to \<open>conn.execute\<close>.\<close>

definition executeSql :: "'f host \<Rightarrow> jsnumber \<Rightarrow> jsstring \<Rightarrow> jsstring" where
  "executeSql h queryTimeout sql =
     (let t = trim sql in
      if startsWith (toUpperCase h t) (ascii ''SELECT'')
      then replace_SELECT_i t (ascii ''SELECT'' @ hint h queryTimeout)
      else t)"

subsection \<open>Configuration\<close>

text \<open>
  \<open>loadDbConfig\<close>, lines 52 to 54: \<open>parseInt(process.env.DB_QUERY_TIMEOUT) || 10\<close>
  seconds, times 1000. NaN and zero are the falsy results of \<open>parseInt\<close>.
\<close>

definition timeoutSeconds :: "parseInt_result \<Rightarrow> jsnumber" where
  "timeoutSeconds parsed =
     (case parsed of
        NaN \<Rightarrow> Finite 10
      | Parsed x \<Rightarrow> if x = Finite 0 then Finite 10 else x)"

definition loadQueryTimeout :: "'f host \<Rightarrow> parseInt_result \<Rightarrow> jsnumber" where
  "loadQueryTimeout h parsed = times1000 h (timeoutSeconds parsed)"

section \<open>The executor with a deadline\<close>

text \<open>
  The pool, the connections and the timer are outside the program. The model records what
  the program does to them as events, and is told by a scenario how each operation it
  waits for ends: with a value, with an error, or never.
\<close>

type_synonym conn = nat

datatype 'a outcome = Resolves 'a | Rejects jserror | Never

datatype event =
    GetConnection conn
  | Query conn jsstring
  | Execute conn jsstring
  | Release conn
  | SetTimeout jsnumber
  | ClearTimeout
  | RejectTimeout jsstring

text \<open>
  When the statement given to \<open>conn.execute\<close> settles, against the timer: before the
  timer fires; after it fired, while the timer's callback is still waiting for its own
  connection or for its KILL command; later than that; or never.
\<close>

datatype 'f settles =
    BeforeDeadline "jserror + 'f jsval"
  | DuringKillStep "jserror + 'f jsval"
  | Later "jserror + 'f jsval"
  | NeverSettles

text \<open>The timer fires before the statement has settled.\<close>

definition deadline_fires :: "'f settles \<Rightarrow> bool" where
  "deadline_fires s = (case s of BeforeDeadline r \<Rightarrow> False | _ \<Rightarrow> True)"

text \<open>The statement is still unsettled when the timer's callback comes to its \<open>reject\<close>.\<close>

definition unsettled_at_reject :: "'f settles \<Rightarrow> bool" where
  "unsettled_at_reject s =
     (case s of BeforeDeadline r \<Rightarrow> False | DuringKillStep r \<Rightarrow> False | _ \<Rightarrow> True)"

record 'f scenario =
  pool_getConnection :: "conn outcome"
  connection_id :: "'f jsval list outcome"
  statement :: "'f settles"
  kill_getConnection :: "conn outcome"
  kill_query :: "unit outcome"

text \<open>
  What a call has done: how it ended, the events of the call itself in order, and the
  events of the timer's callback in order.
\<close>

record 'a run =
  outcome :: "'a outcome"
  trace :: "event list"
  deadline_trace :: "event list"

definition settled :: "jserror + 'a \<Rightarrow> 'a outcome" where
  "settled r = (case r of Inl e \<Rightarrow> Rejects e | Inr v \<Rightarrow> Resolves v)"

definition timeout_prefix :: jsstring where
  "timeout_prefix =
     [0x67E5, 0x8BE2, 0x8D85, 0x65F6, 0xFF1A, 0x67E5, 0x8BE2, 0x6267, 0x884C, 0x8D85,
      0x8FC7, 0x20]"

definition timeout_suffix :: jsstring where
  "timeout_suffix =
     [0x20, 0x79D2, 0x672A, 0x54CD, 0x5E94, 0xFF0C, 0x5DF2, 0x81EA, 0x52A8, 0x7EC8,
      0x6B62, 0x3002, 0x8BF7, 0x91CD, 0x65B0, 0x5C1D, 0x8BD5, 0x6267, 0x884C, 0xFF01]"

text \<open>Line 75 and line 100: \<open>Math.floor(queryTimeout / 1000)\<close> between the two texts.\<close>

definition timeout_message :: "'f host \<Rightarrow> jsnumber \<Rightarrow> jsstring" where
  "timeout_message h queryTimeout =
     timeout_prefix @ jsnumber_toString h (floor_div1000 h queryTimeout) @ timeout_suffix"

text \<open>\<open>idResult[0].id\<close> on the rows of line 85.\<close>

definition first_row_id :: "'f jsval list \<Rightarrow> jserror + 'f jsval" where
  "first_row_id idResult =
     (case idResult of
        [] \<Rightarrow> Inl (TypeError (Read_id_of_first_row Undefined_value))
      | row # _ \<Rightarrow> read_property Read_id_of_first_row row (ascii ''id''))"

text \<open>
  The timer's callback, lines 90 to 101: its events, and whether it gets to \<open>reject\<close>.
  Every error inside its \<open>try\<close> is dropped by the empty \<open>catch\<close>.
\<close>

definition deadline_branch ::
  "'f host \<Rightarrow> jsnumber \<Rightarrow> 'f scenario \<Rightarrow> 'f jsval \<Rightarrow> event list \<times> bool" where
  "deadline_branch h queryTimeout db connId =
     (let reject = RejectTimeout (timeout_message h queryTimeout) in
      case kill_getConnection db of
        Never \<Rightarrow> ([], False)
      | Rejects killError \<Rightarrow> ([reject], True)
      | Resolves killConn \<Rightarrow>
          (case js_toString h connId of
             Inl killError \<Rightarrow> ([GetConnection killConn, reject], True)
           | Inr idText \<Rightarrow>
               (let kill = Query killConn (ascii ''KILL QUERY '' @ idText) in
                case kill_query db of
                  Never \<Rightarrow> ([GetConnection killConn, kill], False)
                | Rejects killError \<Rightarrow> ([GetConnection killConn, kill, reject], True)
                | Resolves _ \<Rightarrow>
                    ([GetConnection killConn, kill, Release killConn, reject], True))))"

text \<open>
  \<open>Promise.race([queryPromise, timeoutPromise])\<close>: the first of the two to settle
  decides. Once the timer has fired its callback runs to its end whatever the race gave.
\<close>

definition race ::
  "'f host \<Rightarrow> jsnumber \<Rightarrow> 'f scenario \<Rightarrow> 'f jsval \<Rightarrow> 'f jsval outcome \<times> event list" where
  "race h queryTimeout db connId =
     (let (events, rejected) = deadline_branch h queryTimeout db connId;
          timeout = Rejects (Error (timeout_message h queryTimeout))
      in case statement db of
           BeforeDeadline r \<Rightarrow> (settled r, [])
         | DuringKillStep r \<Rightarrow> (settled r, events)
         | Later r \<Rightarrow> (if rejected then timeout else settled r, events)
         | NeverSettles \<Rightarrow> (if rejected then timeout else Never, events))"

text \<open>
  \<open>executeWithTimeout\<close>, lines 74 to 132. The \<open>catch\<close> clears the timer when one was
  set and throws the error again; the \<open>finally\<close> releases \<open>conn\<close> when it is set.
\<close>

definition executeWithTimeout ::
  "'f host \<Rightarrow> jsnumber \<Rightarrow> 'f scenario \<Rightarrow> 'f jsval \<Rightarrow> 'f jsval run" where
  "executeWithTimeout h queryTimeout db sql =
     (case pool_getConnection db of
        Never \<Rightarrow> \<lparr>outcome = Never, trace = [], deadline_trace = []\<rparr>
      | Rejects error \<Rightarrow> \<lparr>outcome = Rejects error, trace = [], deadline_trace = []\<rparr>
      | Resolves conn \<Rightarrow>
          (let acquired =
                 [GetConnection conn, Query conn (ascii ''SELECT CONNECTION_ID() as id'')]
           in case connection_id db of
                Never \<Rightarrow> \<lparr>outcome = Never, trace = acquired, deadline_trace = []\<rparr>
              | Rejects error \<Rightarrow>
                  \<lparr>outcome = Rejects error, trace = acquired @ [Release conn],
                   deadline_trace = []\<rparr>
              | Resolves idResult \<Rightarrow>
                  (case first_row_id idResult of
                     Inl error \<Rightarrow>
                       \<lparr>outcome = Rejects error, trace = acquired @ [Release conn],
                        deadline_trace = []\<rparr>
                   | Inr connId \<Rightarrow>
                       (let timed = acquired @ [SetTimeout queryTimeout] in
                        case sql of
                          JStr s \<Rightarrow>
                            (let started =
                                   timed @ [Execute conn (executeSql h queryTimeout s)];
                                 (result, events) = race h queryTimeout db connId
                             in if result = Never
                                then \<lparr>outcome = Never, trace = started,
                                      deadline_trace = events\<rparr>
                                else \<lparr>outcome = result,
                                      trace = started @ [ClearTimeout, Release conn],
                                      deadline_trace = events\<rparr>)
                        | _ \<Rightarrow>
                            \<lparr>outcome = Rejects (TypeError (Call_trim_of_sql (receiver_of sql))),
                             trace = timed @ [ClearTimeout, Release conn],
                             deadline_trace = []\<rparr>))))"

section \<open>The dispatcher\<close>

definition envelope_result :: "'f jsval \<Rightarrow> 'f jsval \<Rightarrow> 'f jsval" where
  "envelope_result rid result =
     JObj [(ascii ''jsonrpc'', JStr (ascii ''2.0'')), (ascii ''id'', rid),
           (ascii ''result'', result)]"

definition envelope_error :: "'f jsval \<Rightarrow> int \<Rightarrow> jsstring \<Rightarrow> 'f jsval" where
  "envelope_error rid code msg =
     JObj [(ascii ''jsonrpc'', JStr (ascii ''2.0'')), (ascii ''id'', rid),
           (ascii ''error'',
            JObj [(ascii ''code'', JNum code), (ascii ''message'', JStr msg)])]"

definition quiet :: "'a outcome \<Rightarrow> 'a run" where
  "quiet r = \<lparr>outcome = r, trace = [], deadline_trace = []\<rparr>"

definition initialize_result :: "'f jsval" where
  "initialize_result =
     JObj [(ascii ''protocolVersion'', JStr (ascii ''2024-11-05'')),
           (ascii ''capabilities'', JObj [(ascii ''tools'', JObj [])]),
           (ascii ''serverInfo'',
            JObj [(ascii ''name'', JStr (ascii ''mysql-server'')),
                  (ascii ''version'', JStr (ascii ''1.0.0''))])]"

definition query_descriptor :: "'f jsval" where
  "query_descriptor =
     JObj [(ascii ''name'', JStr (ascii ''query'')),
           (ascii ''description'',
            JStr [0x6267, 0x884C, 0x20, 0x53, 0x51, 0x4C, 0x20, 0x67E5, 0x8BE2]),
           (ascii ''inputSchema'',
            JObj [(ascii ''type'', JStr (ascii ''object'')),
                  (ascii ''properties'',
                   JObj [(ascii ''sql'',
                          JObj [(ascii ''type'', JStr (ascii ''string'')),
                                (ascii ''description'',
                                 JStr [0x53, 0x51, 0x4C, 0x20, 0x67E5, 0x8BE2, 0x8BED,
                                       0x53E5])])]),
                  (ascii ''required'', JArr [JStr (ascii ''sql'')])])]"

definition list_tables_descriptor :: "'f jsval" where
  "list_tables_descriptor =
     JObj [(ascii ''name'', JStr (ascii ''list_tables'')),
           (ascii ''description'',
            JStr [0x5217, 0x51FA, 0x6240, 0x6709, 0x6570, 0x636E, 0x8868]),
           (ascii ''inputSchema'',
            JObj [(ascii ''type'', JStr (ascii ''object'')),
                  (ascii ''properties'', JObj [])])]"

definition describe_table_descriptor :: "'f jsval" where
  "describe_table_descriptor =
     JObj [(ascii ''name'', JStr (ascii ''describe_table'')),
           (ascii ''description'', JStr [0x67E5, 0x770B, 0x8868, 0x7ED3, 0x6784]),
           (ascii ''inputSchema'',
            JObj [(ascii ''type'', JStr (ascii ''object'')),
                  (ascii ''properties'',
                   JObj [(ascii ''table'',
                          JObj [(ascii ''type'', JStr (ascii ''string'')),
                                (ascii ''description'', JStr [0x8868, 0x540D])])]),
                  (ascii ''required'', JArr [JStr (ascii ''table'')])])]"

definition tools_list_result :: "'f jsval" where
  "tools_list_result =
     JObj [(ascii ''tools'',
            JArr [query_descriptor, list_tables_descriptor, describe_table_descriptor])]"

text \<open>\<open>JSON.stringify(v, null, 2)\<close> is undefined for undefined and a text otherwise.\<close>

definition stringify_indent :: "'f host \<Rightarrow> 'f jsval \<Rightarrow> 'f jsval" where
  "stringify_indent h v =
     (if v = JUndefined then JUndefined else JStr (JSON_stringify_indent h v))"

definition content_result :: "'f jsval \<Rightarrow> 'f jsval" where
  "content_result text =
     JObj [(ascii ''content'',
            JArr [JObj [(ascii ''type'', JStr (ascii ''text'')), (ascii ''text'', text)]])]"

text \<open>Line 278: \<open>tables.map(row => ({ name: row.Name, comment: row.Comment || '' }))\<close>.\<close>

definition table_info_row :: "'f host \<Rightarrow> 'f jsval \<Rightarrow> jserror + 'f jsval" where
  "table_info_row h row =
     (if nullish row then Inl (TypeError (Read_Name_of_row (kind_of row)))
      else Inr (JObj [(ascii ''name'', get_property row (ascii ''Name'')),
                      (ascii ''comment'',
                       (let c = get_property row (ascii ''Comment'')
                        in if falsy h c then JStr [] else c))]))"

definition table_info :: "'f host \<Rightarrow> 'f jsval \<Rightarrow> jserror + 'f jsval" where
  "table_info h tables =
     (case tables of
        JArr rows \<Rightarrow>
          (case collect (map (table_info_row h) rows) of
             Inl e \<Rightarrow> Inl e
           | Inr infos \<Rightarrow> Inr (JArr infos))
      | _ \<Rightarrow> Inl (TypeError (Call_map_of_tables (receiver_of tables))))"

definition unknown_tool_prefix :: jsstring where
  "unknown_tool_prefix = [0x672A, 0x77E5, 0x7684, 0x5DE5, 0x5177, 0x3A, 0x20]"

definition unknown_method_prefix :: jsstring where
  "unknown_method_prefix = [0x672A, 0x77E5, 0x7684, 0x65B9, 0x6CD5, 0x3A, 0x20]"

text \<open>A handler that has awaited the executor goes on with the rows, or passes on how the executor ended.\<close>

definition after_rows ::
  "'f jsval run \<Rightarrow> ('f jsval \<Rightarrow> jserror + 'f jsval) \<Rightarrow> 'f jsval option run" where
  "after_rows x k =
     \<lparr>outcome =
        (case outcome x of
           Never \<Rightarrow> Never
         | Rejects e \<Rightarrow> Rejects e
         | Resolves rows \<Rightarrow>
             (case k rows of Inl e \<Rightarrow> Rejects e | Inr response \<Rightarrow> Resolves (Some response))),
      trace = trace x, deadline_trace = deadline_trace x\<rparr>"

text \<open>The case \<open>tools/call\<close>, lines 255 to 310.\<close>

definition tools_call ::
  "'f host \<Rightarrow> jsnumber \<Rightarrow> 'f scenario \<Rightarrow> 'f jsval \<Rightarrow> 'f jsval \<Rightarrow> 'f jsval option run" where
  "tools_call h queryTimeout db rid params =
     (if nullish params
      then quiet (Rejects (TypeError (Destructure_params (kind_of params))))
      else
        let name = get_property params (ascii ''name'');
            args = get_property params (ascii ''arguments'')
        in
          if name = JStr (ascii ''query'') then
            (case read_property Read_sql_of_args args (ascii ''sql'') of
               Inl e \<Rightarrow> quiet (Rejects e)
             | Inr sql \<Rightarrow>
                 after_rows (executeWithTimeout h queryTimeout db sql)
                   (\<lambda>rows. Inr (envelope_result rid
                                   (content_result (stringify_indent h rows)))))
          else if name = JStr (ascii ''list_tables'') then
            after_rows
              (executeWithTimeout h queryTimeout db (JStr (ascii ''SHOW TABLE STATUS'')))
              (\<lambda>tables.
                 case table_info h tables of
                   Inl e \<Rightarrow> Inl e
                 | Inr tableInfo \<Rightarrow>
                     Inr (envelope_result rid
                            (content_result (stringify_indent h tableInfo))))
          else if name = JStr (ascii ''describe_table'') then
            (case read_property Read_table_of_args args (ascii ''table'') of
               Inl e \<Rightarrow> quiet (Rejects e)
             | Inr table \<Rightarrow>
                 (case js_toString h table of
                    Inl e \<Rightarrow> quiet (Rejects e)
                  | Inr tableText \<Rightarrow>
                      after_rows
                        (executeWithTimeout h queryTimeout db
                           (JStr (ascii ''SHOW FULL COLUMNS FROM '' @ tableText)))
                        (\<lambda>structure.
                           Inr (envelope_result rid
                                  (content_result (stringify_indent h structure))))))
          else
            (case js_toString h name of
               Inl e \<Rightarrow> quiet (Rejects e)
             | Inr nameText \<Rightarrow> quiet (Rejects (Error (unknown_tool_prefix @ nameText)))))"

text \<open>The \<open>switch\<close> inside the \<open>try\<close>, lines 192 to 325.\<close>

definition dispatch ::
  "'f host \<Rightarrow> jsnumber \<Rightarrow> 'f scenario \<Rightarrow> 'f jsval \<Rightarrow> 'f jsval \<Rightarrow> 'f jsval \<Rightarrow>
   'f jsval option run" where
  "dispatch h queryTimeout db rid method params =
     (if method = JStr (ascii ''initialize'') then
        quiet (Resolves (Some (envelope_result rid initialize_result)))
      else if method = JStr (ascii ''tools/list'') then
        quiet (Resolves (Some (envelope_result rid tools_list_result)))
      else if method = JStr (ascii ''tools/call'') then
        tools_call h queryTimeout db rid params
      else if rid \<noteq> JUndefined \<and> rid \<noteq> JNull then
        (case js_toString h method of
           Inl e \<Rightarrow> quiet (Rejects e)
         | Inr methodText \<Rightarrow>
             quiet (Resolves (Some (envelope_error rid (- 32601)
                                      (unknown_method_prefix @ methodText)))))
      else quiet (Resolves None))"

text \<open>The \<open>catch\<close> of lines 326 to 339.\<close>

definition catch_error ::
  "'f host \<Rightarrow> 'f jsval \<Rightarrow> 'f jsval option run \<Rightarrow> 'f jsval option run" where
  "catch_error h rid x =
     (case outcome x of
        Rejects error \<Rightarrow>
          x\<lparr>outcome :=
              (if rid \<noteq> JUndefined \<and> rid \<noteq> JNull
               then Resolves (Some (envelope_error rid (- 32603) (message h error)))
               else Resolves None)\<rparr>
      | _ \<Rightarrow> x)"

text \<open>
  \<open>handleRequest\<close>, lines 159 to 340. \<open>Resolves None\<close> is the returned \<open>null\<close>. The
  destructuring of line 174 is outside every \<open>try\<close>: on the JSON text \<open>null\<close> the call
  itself is rejected.
\<close>

definition handleRequest ::
  "'f host \<Rightarrow> jsnumber \<Rightarrow> 'f scenario \<Rightarrow> jsstring \<Rightarrow> 'f jsval option run" where
  "handleRequest h queryTimeout db request =
     (case JSON_parse h request of
        None \<Rightarrow> quiet (Resolves (Some (envelope_error JNull (- 32700) (ascii ''Parse error''))))
      | Some requestData \<Rightarrow>
          if nullish requestData then quiet (Rejects (TypeError Destructure_requestData))
          else
            let rid = get_property requestData (ascii ''id'');
                method = get_property requestData (ascii ''method'');
                params = get_property requestData (ascii ''params'')
            in if rid = JUndefined \<or> rid = JNull then quiet (Resolves None)
               else catch_error h rid (dispatch h queryTimeout db rid method params))"

section \<open>The line transport\<close>

text \<open>
  The \<open>line\<close> handler of \<open>main\<close>, lines 352 to 362: the lines it writes to standard
  output for one input line.
\<close>

definition on_line :: "'f host \<Rightarrow> jsnumber \<Rightarrow> 'f scenario \<Rightarrow> jsstring \<Rightarrow> jsstring list" where
  "on_line h queryTimeout db line =
     (case outcome (handleRequest h queryTimeout db line) of
        Resolves (Some response) \<Rightarrow> [JSON_stringify h response]
      | _ \<Rightarrow> [])"

section \<open>A sample host, sample requests and sample scenarios\<close>

text \<open>
  Concrete values on which the theorems below are exercised. The sample \<open>JSON.parse\<close>
  knows the sample lines only and reports a syntax error on every other line; the sample
  \<open>toUpperCase\<close> raises the ASCII letters; the sample serialisers are constant, and no
  theorem evaluates them, nor the sample arithmetic on large integers; the TypeError
  texts of the sample host are those of V8.
\<close>

definition sample_toUpperCase :: "jsstring \<Rightarrow> jsstring" where
  "sample_toUpperCase s = map ascii_upper s"

definition notification_line :: jsstring where
  \<open>notification_line =
     ascii ''{"jsonrpc":"2.0","method":"tools/call","params":{"name":"query","arguments":{"sql":"SELECT 1"}}}''\<close>

definition notification_request :: "unit jsval" where
  "notification_request =
     JObj [(ascii ''jsonrpc'', JStr (ascii ''2.0'')),
           (ascii ''method'', JStr (ascii ''tools/call'')),
           (ascii ''params'',
            JObj [(ascii ''name'', JStr (ascii ''query'')),
                  (ascii ''arguments'', JObj [(ascii ''sql'', JStr (ascii ''SELECT 1''))])])]"

definition tools_list_line :: jsstring where
  \<open>tools_list_line = ascii ''{"jsonrpc":"2.0","id":2,"method":"tools/list"}''\<close>

definition tools_list_request :: "unit jsval" where
  "tools_list_request =
     JObj [(ascii ''jsonrpc'', JStr (ascii ''2.0'')), (ascii ''id'', JNum 2),
           (ascii ''method'', JStr (ascii ''tools/list''))]"

definition unknown_tool_line :: jsstring where
  \<open>unknown_tool_line =
     ascii ''{"jsonrpc":"2.0","id":3,"method":"tools/call","params":{"name":"drop_table"}}''\<close>

definition unknown_tool_request :: "unit jsval" where
  "unknown_tool_request =
     JObj [(ascii ''jsonrpc'', JStr (ascii ''2.0'')), (ascii ''id'', JNum 3),
           (ascii ''method'', JStr (ascii ''tools/call'')),
           (ascii ''params'', JObj [(ascii ''name'', JStr (ascii ''drop_table''))])]"

definition object_name_line :: jsstring where
  \<open>object_name_line =
     ascii ''{"jsonrpc":"2.0","id":4,"method":"tools/call","params":{"name":{"toString":1}}}''\<close>

definition object_name_request :: "unit jsval" where
  "object_name_request =
     JObj [(ascii ''jsonrpc'', JStr (ascii ''2.0'')), (ascii ''id'', JNum 4),
           (ascii ''method'', JStr (ascii ''tools/call'')),
           (ascii ''params'',
            JObj [(ascii ''name'', JObj [(ascii ''toString'', JNum 1)])])]"

definition query_line :: jsstring where
  \<open>query_line =
     ascii ''{"jsonrpc":"2.0","id":5,"method":"tools/call","params":{"name":"query","arguments":{"sql":"select sleep(60)"}}}''\<close>

definition query_request :: "unit jsval" where
  "query_request =
     JObj [(ascii ''jsonrpc'', JStr (ascii ''2.0'')), (ascii ''id'', JNum 5),
           (ascii ''method'', JStr (ascii ''tools/call'')),
           (ascii ''params'',
            JObj [(ascii ''name'', JStr (ascii ''query'')),
                  (ascii ''arguments'',
                   JObj [(ascii ''sql'', JStr (ascii ''select sleep(60)''))])])]"

definition no_params_line :: jsstring where
  \<open>no_params_line = ascii ''{"jsonrpc":"2.0","id":6,"method":"tools/call"}''\<close>

definition no_params_request :: "unit jsval" where
  "no_params_request =
     JObj [(ascii ''jsonrpc'', JStr (ascii ''2.0'')), (ascii ''id'', JNum 6),
           (ascii ''method'', JStr (ascii ''tools/call''))]"

definition null_params_line :: jsstring where
  \<open>null_params_line =
     ascii ''{"jsonrpc":"2.0","id":7,"method":"tools/call","params":null}''\<close>

definition null_params_request :: "unit jsval" where
  "null_params_request =
     JObj [(ascii ''jsonrpc'', JStr (ascii ''2.0'')), (ascii ''id'', JNum 7),
           (ascii ''method'', JStr (ascii ''tools/call'')), (ascii ''params'', JNull)]"

definition sample_parse :: "jsstring \<Rightarrow> unit jsval option" where
  "sample_parse line =
     (if line = ascii ''null'' then Some JNull
      else if line = notification_line then Some notification_request
      else if line = tools_list_line then Some tools_list_request
      else if line = unknown_tool_line then Some unknown_tool_request
      else if line = object_name_line then Some object_name_request
      else if line = query_line then Some query_request
      else if line = no_params_line then Some no_params_request
      else if line = null_params_line then Some null_params_request
      else None)"

definition quoted :: "string \<Rightarrow> jsstring" where
  "quoted s = 39 # ascii s @ [39]"

definition kind_text :: "nullish_kind \<Rightarrow> jsstring" where
  "kind_text k = (case k of Undefined_value \<Rightarrow> ascii ''undefined'' | Null_value \<Rightarrow> ascii ''null'')"

definition cannot_read :: "nullish_kind \<Rightarrow> string \<Rightarrow> jsstring" where
  "cannot_read k property =
     ascii ''Cannot read properties of '' @ kind_text k @ ascii '' (reading ''
     @ quoted property @ ascii '')''"

definition sample_typeErrorMessage :: "type_error \<Rightarrow> jsstring" where
  "sample_typeErrorMessage t =
     (case t of
        Destructure_requestData \<Rightarrow>
          ascii ''Cannot destructure property '' @ quoted ''id'' @ ascii '' of ''
          @ quoted ''requestData'' @ ascii '' as it is null.''
      | Destructure_params k \<Rightarrow>
          ascii ''Cannot destructure property '' @ quoted ''name'' @ ascii '' of ''
          @ quoted ''params'' @ ascii '' as it is '' @ kind_text k @ ascii ''.''
      | Read_sql_of_args k \<Rightarrow> cannot_read k ''sql''
      | Read_table_of_args k \<Rightarrow> cannot_read k ''table''
      | Read_id_of_first_row k \<Rightarrow> cannot_read k ''id''
      | Read_Name_of_row k \<Rightarrow> cannot_read k ''Name''
      | Call_trim_of_sql (Nullish k) \<Rightarrow> cannot_read k ''trim''
      | Call_trim_of_sql Without_method \<Rightarrow> ascii ''sql.trim is not a function''
      | Call_map_of_tables (Nullish k) \<Rightarrow> cannot_read k ''map''
      | Call_map_of_tables Without_method \<Rightarrow> ascii ''tables.map is not a function''
      | Not_convertible_to_primitive \<Rightarrow> ascii ''Cannot convert object to primitive value'')"

definition sample_host :: "unit host" where
  "sample_host =
     \<lparr>JSON_parse = sample_parse,
      JSON_stringify = (\<lambda>v. ascii ''{}''),
      JSON_stringify_indent = (\<lambda>v. ascii ''[]''),
      toUpperCase = sample_toUpperCase,
      largeToString = (\<lambda>n. ascii ''1e+21''),
      largeTimes1000 = (\<lambda>n. PlusInfinity),
      largeFloorDiv1000 = (\<lambda>n. PlusInfinity),
      fracToString = (\<lambda>x. ascii ''0.5''),
      fracIsNaN = (\<lambda>x. False),
      typeErrorMessage = sample_typeErrorMessage\<rparr>"

text \<open>
  The statement outlives the timer; the callback gets connection 2, and its KILL command
  fails.
\<close>

definition sample_db :: "unit scenario" where
  "sample_db =
     \<lparr>pool_getConnection = Resolves 1,
      connection_id = Resolves [JObj [(ascii ''id'', JNum 42)]],
      statement = Later (Inr (JArr [])),
      kill_getConnection = Resolves 2,
      kill_query = Rejects (DriverError (ascii ''Unknown thread id: 42''))\<rparr>"

text \<open>
  The timer fires, and the statement comes back with its row while the callback is
  waiting for the answer to its KILL command.
\<close>

definition late_result_db :: "unit scenario" where
  "late_result_db =
     \<lparr>pool_getConnection = Resolves 1,
      connection_id = Resolves [JObj [(ascii ''id'', JNum 42)]],
      statement = DuringKillStep (Inr (JArr [JObj [(ascii ''sleep(60)'', JNum 0)]])),
      kill_getConnection = Resolves 2,
      kill_query = Resolves ()\<rparr>"

text \<open>The statement gives its row before the timer fires.\<close>

definition in_time_db :: "unit scenario" where
  "in_time_db =
     \<lparr>pool_getConnection = Resolves 1,
      connection_id = Resolves [JObj [(ascii ''id'', JNum 42)]],
      statement = BeforeDeadline (Inr (JArr [JObj [(ascii ''1'', JNum 1)]])),
      kill_getConnection = Resolves 2,
      kill_query = Resolves ()\<rparr>"

text \<open>The database refuses the statement before the timer fires.\<close>

definition refused_db :: "unit scenario" where
  "refused_db =
     \<lparr>pool_getConnection = Resolves 1,
      connection_id = Resolves [JObj [(ascii ''id'', JNum 42)]],
      statement = BeforeDeadline (Inl (DriverError (ascii ''You have an error in your SQL syntax''))),
      kill_getConnection = Resolves 2,
      kill_query = Resolves ()\<rparr>"

section \<open>Theorems\<close>

lemmas sample_lines =
  notification_line_def tools_list_line_def unknown_tool_line_def object_name_line_def
  query_line_def no_params_line_def null_params_line_def

lemma quiet_simps [simp]:
  "outcome (quiet r) = r" "trace (quiet r) = []" "deadline_trace (quiet r) = []"
  by (simp_all add: quiet_def)

text \<open>
  Claim C5. An input line that is not valid JSON makes the server write exactly one line:
  the envelope with \<open>jsonrpc\<close> 2.0, \<open>id\<close> null and the error of code -32700 and
  message \<open>Parse error\<close>. The parse failure is handled before any id is read.
\<close>

theorem parse_error_envelope:
  assumes "JSON_parse h line = None"
  shows "handleRequest h queryTimeout db line =
           quiet (Resolves (Some (JObj [(ascii ''jsonrpc'', JStr (ascii ''2.0'')),
                                        (ascii ''id'', JNull),
                                        (ascii ''error'',
                                         JObj [(ascii ''code'', JNum (- 32700)),
                                               (ascii ''message'',
                                                JStr (ascii ''Parse error''))])])))
         \<and> on_line h queryTimeout db line =
           [JSON_stringify h
              (JObj [(ascii ''jsonrpc'', JStr (ascii ''2.0'')), (ascii ''id'', JNull),
                     (ascii ''error'',
                      JObj [(ascii ''code'', JNum (- 32700)),
                            (ascii ''message'', JStr (ascii ''Parse error''))])])]"
  using assms by (simp add: handleRequest_def on_line_def envelope_error_def)

lemma sample_parse_oops: "JSON_parse sample_host (ascii ''{oops'') = None"
  by (simp add: sample_host_def sample_parse_def sample_lines ascii_def)

theorem parse_error_envelope_witness:
  "JSON_parse sample_host (ascii ''{oops'') = None
   \<and> on_line sample_host (Finite 10000) sample_db (ascii ''{oops'') =
       [JSON_stringify sample_host
          (JObj [(ascii ''jsonrpc'', JStr (ascii ''2.0'')), (ascii ''id'', JNull),
                 (ascii ''error'',
                  JObj [(ascii ''code'', JNum (- 32700)),
                        (ascii ''message'', JStr (ascii ''Parse error''))])])]"
  using parse_error_envelope [of sample_host "ascii ''{oops''" "Finite 10000" sample_db] sample_parse_oops
  by simp

text \<open>
  Claim C4. A line that parses as JSON and whose id is absent or null writes no line to
  standard output, whatever its method, its parameters and the state of the database.
\<close>

theorem notification_no_output:
  assumes "JSON_parse h line = Some requestData"
    and "nullish (get_property requestData (ascii ''id''))"
  shows "on_line h queryTimeout db line = []"
  using assms by (simp add: on_line_def handleRequest_def nullish_def Let_def)

text \<open>
  Claim C9. A request whose id is absent or null is answered before the method switch:
  \<open>handleRequest\<close> ends without an event on the pool, a connection or the timer, so no
  tool handler and no \<open>executeWithTimeout\<close> has run. (On the JSON text \<open>null\<close> the call
  is rejected at the destructuring, equally without an event.)
\<close>

theorem notification_no_dispatch:
  assumes "JSON_parse h line = Some requestData"
    and "nullish (get_property requestData (ascii ''id''))"
  shows "handleRequest h queryTimeout db line =
           quiet (if nullish requestData then Rejects (TypeError Destructure_requestData)
                  else Resolves None)
         \<and> trace (handleRequest h queryTimeout db line) = []
         \<and> deadline_trace (handleRequest h queryTimeout db line) = []"
  using assms by (auto simp add: handleRequest_def nullish_def Let_def get_property_def)

text \<open>
  Claim C8. A \<open>tools/list\<close> request with an id that is neither absent nor null is
  answered with exactly the three descriptors \<open>query\<close>, \<open>list_tables\<close> and
  \<open>describe_table\<close>, in this order, each with its name, its description and its input
  schema as written out below. The answer depends on the id alone: not on the timeout and
  not on the scenario, so the same request gives the same output line again.
\<close>

theorem tools_list_static:
  assumes "JSON_parse h line = Some requestData"
    and "get_property requestData (ascii ''id'') = rid"
    and "\<not> nullish rid"
    and "get_property requestData (ascii ''method'') = JStr (ascii ''tools/list'')"
    and "response =
      JObj [(ascii ''jsonrpc'', JStr (ascii ''2.0'')), (ascii ''id'', rid),
              (ascii ''result'',
               JObj [(ascii ''tools'',
                 JArr
                  [JObj [(ascii ''name'', JStr (ascii ''query'')),
                   (ascii ''description'',
                    JStr [0x6267, 0x884C, 0x20, 0x53, 0x51, 0x4C, 0x20, 0x67E5, 0x8BE2]),
                   (ascii ''inputSchema'',
                    JObj [(ascii ''type'', JStr (ascii ''object'')),
                          (ascii ''properties'',
                           JObj [(ascii ''sql'',
                                  JObj [(ascii ''type'', JStr (ascii ''string'')),
                                        (ascii ''description'',
                                         JStr [0x53, 0x51, 0x4C, 0x20, 0x67E5, 0x8BE2, 0x8BED,
                                               0x53E5])])]),
                          (ascii ''required'', JArr [JStr (ascii ''sql'')])])],
                   JObj [(ascii ''name'', JStr (ascii ''list_tables'')),
                   (ascii ''description'',
                    JStr [0x5217, 0x51FA, 0x6240, 0x6709, 0x6570, 0x636E, 0x8868]),
                   (ascii ''inputSchema'',
                    JObj [(ascii ''type'', JStr (ascii ''object'')),
                          (ascii ''properties'', JObj [])])],
                   JObj [(ascii ''name'', JStr (ascii ''describe_table'')),
                   (ascii ''description'', JStr [0x67E5, 0x770B, 0x8868, 0x7ED3, 0x6784]),
                   (ascii ''inputSchema'',
                    JObj [(ascii ''type'', JStr (ascii ''object'')),
                          (ascii ''properties'',
                           JObj [(ascii ''table'',
                                  JObj [(ascii ''type'', JStr (ascii ''string'')),
                                        (ascii ''description'', JStr [0x8868, 0x540D])])]),
                          (ascii ''required'', JArr [JStr (ascii ''table'')])])]])])]"
  shows "handleRequest h queryTimeout db line = quiet (Resolves (Some response))
         \<and> on_line h queryTimeout db line = [JSON_stringify h response]
         \<and> handleRequest h queryTimeout' db' line = handleRequest h queryTimeout db line
         \<and> on_line h queryTimeout' db' line = on_line h queryTimeout db line"
proof -
  have neq: "ascii ''initialize'' \<noteq> ascii ''tools/list''"
    by (simp add: ascii_def)
  have r: "\<And>q d. handleRequest h q d line = quiet (Resolves (Some response))"
    using assms neq
    by (auto simp add: handleRequest_def nullish_def Let_def dispatch_def catch_error_def
        get_property_def envelope_result_def tools_list_result_def query_descriptor_def
        list_tables_descriptor_def describe_table_descriptor_def)
  show ?thesis
    using r by (simp add: on_line_def)
qed

lemma sample_parse_notification:
  "JSON_parse sample_host notification_line = Some notification_request"
  by (simp add: sample_host_def sample_parse_def sample_lines ascii_def)

lemma sample_parse_tools_list:
  "JSON_parse sample_host tools_list_line = Some tools_list_request"
  by (simp add: sample_host_def sample_parse_def sample_lines ascii_def)

lemma notification_request_id:
  "get_property notification_request (ascii ''id'') = JUndefined"
  by (simp add: notification_request_def get_property_def ascii_def)

theorem notification_no_output_witness:
  "JSON_parse sample_host notification_line = Some notification_request
   \<and> nullish (get_property notification_request (ascii ''id''))
   \<and> on_line sample_host (Finite 10000) sample_db notification_line = []"
  using notification_no_output [of sample_host notification_line notification_request "Finite 10000" sample_db]
    sample_parse_notification notification_request_id
  by (simp add: nullish_def)

theorem notification_no_dispatch_witness:
  "JSON_parse sample_host notification_line = Some notification_request
   \<and> nullish (get_property notification_request (ascii ''id''))
   \<and> handleRequest sample_host (Finite 10000) sample_db notification_line = quiet (Resolves None)
   \<and> trace (handleRequest sample_host (Finite 10000) sample_db notification_line) = []
   \<and> deadline_trace (handleRequest sample_host (Finite 10000) sample_db notification_line) = []"
  using notification_no_dispatch [of sample_host notification_line notification_request "Finite 10000" sample_db]
    sample_parse_notification notification_request_id
  by (simp add: nullish_def notification_request_def)

theorem tools_list_static_witness:
  "JSON_parse sample_host tools_list_line = Some tools_list_request
   \<and> get_property tools_list_request (ascii ''id'') = JNum 2
   \<and> \<not> nullish (JNum 2 :: unit jsval)
   \<and> get_property tools_list_request (ascii ''method'') = JStr (ascii ''tools/list'')
   \<and> on_line sample_host (Finite 10000) sample_db tools_list_line =
       [JSON_stringify sample_host
          (JObj [(ascii ''jsonrpc'', JStr (ascii ''2.0'')), (ascii ''id'', JNum 2),
                  (ascii ''result'',
                   JObj [(ascii ''tools'',
                     JArr
                      [JObj [(ascii ''name'', JStr (ascii ''query'')),
                       (ascii ''description'',
                        JStr [0x6267, 0x884C, 0x20, 0x53, 0x51, 0x4C, 0x20, 0x67E5, 0x8BE2]),
                       (ascii ''inputSchema'',
                        JObj [(ascii ''type'', JStr (ascii ''object'')),
                              (ascii ''properties'',
                               JObj [(ascii ''sql'',
                                      JObj [(ascii ''type'', JStr (ascii ''string'')),
                                            (ascii ''description'',
                                             JStr [0x53, 0x51, 0x4C, 0x20, 0x67E5, 0x8BE2, 0x8BED,
                                                   0x53E5])])]),
                              (ascii ''required'', JArr [JStr (ascii ''sql'')])])],
                       JObj [(ascii ''name'', JStr (ascii ''list_tables'')),
                       (ascii ''description'',
                        JStr [0x5217, 0x51FA, 0x6240, 0x6709, 0x6570, 0x636E, 0x8868]),
                       (ascii ''inputSchema'',
                        JObj [(ascii ''type'', JStr (ascii ''object'')),
                              (ascii ''properties'', JObj [])])],
                       JObj [(ascii ''name'', JStr (ascii ''describe_table'')),
                       (ascii ''description'', JStr [0x67E5, 0x770B, 0x8868, 0x7ED3, 0x6784]),
                       (ascii ''inputSchema'',
                        JObj [(ascii ''type'', JStr (ascii ''object'')),
                              (ascii ''properties'',
                               JObj [(ascii ''table'',
                                      JObj [(ascii ''type'', JStr (ascii ''string'')),
                                            (ascii ''description'', JStr [0x8868, 0x540D])])]),
                              (ascii ''required'', JArr [JStr (ascii ''table'')])])]])])])]
   \<and> on_line sample_host (Finite 20000) in_time_db tools_list_line =
       on_line sample_host (Finite 10000) sample_db tools_list_line"
proof -
  have a: "get_property tools_list_request (ascii ''id'') = JNum 2"
    by (simp add: tools_list_request_def get_property_def ascii_def)
  have b: "\<not> nullish (JNum 2 :: unit jsval)"
    by (simp add: nullish_def)
  have c: "get_property tools_list_request (ascii ''method'') = JStr (ascii ''tools/list'')"
    by (simp add: tools_list_request_def get_property_def ascii_def)
  show ?thesis
    using tools_list_static [OF sample_parse_tools_list a b c refl,
        of "Finite 10000" sample_db "Finite 20000" in_time_db] a b c sample_parse_tools_list
    by simp
qed

subsection \<open>The executor\<close>

lemma decimal_digit: "n < 10 \<Longrightarrow> decimal n = [48 + n]"
  by (simp add: decimal.simps)

lemma decimal_more: "10 \<le> n \<Longrightarrow> decimal n = decimal (n div 10) @ [48 + n mod 10]"
  by (subst decimal.simps) simp

lemmas eval_decimal =
  decimal_digit decimal_more signed_decimal_def number_toString_def jsnumber_toString_def
  floor_div1000_def times1000_def

lemma sample_connId:
  "first_row_id [JObj [(ascii ''id'', JNum 42 :: unit jsval)]] = Inr (JNum 42)"
  by (simp add: first_row_id_def read_property_def nullish_def get_property_def)

lemma sample_idText: "js_toString sample_host (JNum 42) = Inr (ascii ''42'')"
  by (simp add: eval_decimal ascii_def)

lemma settled_not_Never [simp]: "settled r \<noteq> Never"
  by (simp add: settled_def split: sum.splits)

lemma deadline_branch_rejects:
  assumes "kill_getConnection db \<noteq> Never"
    and "kill_query db \<noteq> Never"
  shows "snd (deadline_branch h queryTimeout db connId)"
  using assms
  by (auto simp add: deadline_branch_def Let_def split: outcome.splits sum.splits)

lemma race_settles:
  assumes "statement db = NeverSettles \<longrightarrow>
             kill_getConnection db \<noteq> Never \<and> kill_query db \<noteq> Never"
    and "race h queryTimeout db connId = (result, events)"
  shows "result \<noteq> Never"
proof (cases "deadline_branch h queryTimeout db connId")
  case (Pair evs rejected)
  show ?thesis
  proof (cases "statement db")
    case NeverSettles
    then have "snd (deadline_branch h queryTimeout db connId)"
      using assms(1) deadline_branch_rejects by blast
    then have "rejected"
      using Pair by simp
    then show ?thesis
      using NeverSettles Pair assms(2) by (auto simp add: race_def)
  qed (use Pair assms(2) in \<open>auto simp add: race_def split: if_splits\<close>)
qed

lemma call_settles:
  assumes "pool_getConnection db = Resolves conn"
    and "connection_id db \<noteq> Never"
    and "statement db = NeverSettles \<longrightarrow>
           kill_getConnection db \<noteq> Never \<and> kill_query db \<noteq> Never"
  shows "outcome (executeWithTimeout h queryTimeout db sql) \<noteq> Never"
  using assms(1,2)
  by (auto simp add: executeWithTimeout_def Let_def dest: race_settles [OF assms(3)]
      split: outcome.splits sum.splits jsval.splits prod.splits)

lemma release_count:
  assumes "pool_getConnection db = Resolves conn"
  shows "length (filter (\<lambda>e. e = Release conn)
                   (trace (executeWithTimeout h queryTimeout db sql))) =
           (if outcome (executeWithTimeout h queryTimeout db sql) = Never then 0 else 1)"
  using assms
  by (auto simp add: executeWithTimeout_def Let_def
      split: outcome.splits sum.splits jsval.splits prod.splits)

lemma release_last:
  assumes "pool_getConnection db = Resolves conn"
    and "outcome (executeWithTimeout h queryTimeout db sql) \<noteq> Never"
  shows "last (trace (executeWithTimeout h queryTimeout db sql)) = Release conn"
  using assms
  by (auto simp add: executeWithTimeout_def Let_def
      split: outcome.splits sum.splits jsval.splits prod.splits if_splits)

text \<open>
  Claim C2. Take a call of \<open>executeWithTimeout\<close> that got its connection from the pool.
  If the session id query is answered (with rows or with an error) and the race is
  decided (the statement settles at some time, or else the timer's callback is answered
  by the pool and by the database), the call ends, it has released its connection
  exactly once, and the release is the last thing it did. This holds on every path:
  rows, an error of the database, a TypeError, the timeout error. In any scenario at
  all the connection is released once when the call ends and not at all while it hangs.
\<close>

theorem release_exactly_once:
  assumes "pool_getConnection db = Resolves conn"
  shows "(connection_id db \<noteq> Never
          \<and> (statement db = NeverSettles \<longrightarrow>
                kill_getConnection db \<noteq> Never \<and> kill_query db \<noteq> Never) \<longrightarrow>
            outcome (executeWithTimeout h queryTimeout db sql) \<noteq> Never
            \<and> length (filter (\<lambda>e. e = Release conn)
                        (trace (executeWithTimeout h queryTimeout db sql))) = 1
            \<and> last (trace (executeWithTimeout h queryTimeout db sql)) = Release conn)
         \<and> length (filter (\<lambda>e. e = Release conn)
                      (trace (executeWithTimeout h queryTimeout db sql))) =
             (if outcome (executeWithTimeout h queryTimeout db sql) = Never then 0 else 1)"
proof -
  have "outcome (executeWithTimeout h queryTimeout db sql) \<noteq> Never"
    if "connection_id db \<noteq> Never"
      and "statement db = NeverSettles \<longrightarrow>
             kill_getConnection db \<noteq> Never \<and> kill_query db \<noteq> Never"
    using call_settles [OF assms that] .
  then show ?thesis
    using release_count [OF assms, of h queryTimeout sql]
      release_last [OF assms, of h queryTimeout sql]
    by auto
qed

lemma sample_executeSql:
  "executeSql sample_host (Finite 10000) (ascii ''select sleep(60)'') =
     ascii ''SELECT /*+ MAX_EXECUTION_TIME(10000) */ sleep(60)''"
  by (simp add: executeSql_def sample_host_def sample_toUpperCase_def trim_def
      is_white_space_def startsWith_def ascii_def ascii_upper_def replace_SELECT_i_def
      matches_SELECT_i_def hint_def eval_decimal)

lemma sample_deadline_branch:
  "deadline_branch sample_host (Finite 10000) sample_db (JNum 42) =
     ([GetConnection 2, Query 2 (ascii ''KILL QUERY 42''),
       RejectTimeout (timeout_message sample_host (Finite 10000))], True)"
  by (simp add: deadline_branch_def sample_db_def Let_def eval_decimal ascii_def)

lemma sample_race:
  "race sample_host (Finite 10000) sample_db (JNum 42) =
     (Rejects (Error (timeout_message sample_host (Finite 10000))),
      [GetConnection 2, Query 2 (ascii ''KILL QUERY 42''),
       RejectTimeout (timeout_message sample_host (Finite 10000))])"
  by (simp add: race_def sample_deadline_branch) (simp add: sample_db_def)

lemma sample_timeout_run:
  "executeWithTimeout sample_host (Finite 10000) sample_db (JStr (ascii ''select sleep(60)'')) =
     \<lparr>outcome = Rejects (Error (timeout_message sample_host (Finite 10000))),
      trace = [GetConnection 1, Query 1 (ascii ''SELECT CONNECTION_ID() as id''),
               SetTimeout (Finite 10000),
               Execute 1 (ascii ''SELECT /*+ MAX_EXECUTION_TIME(10000) */ sleep(60)''),
               ClearTimeout, Release 1],
      deadline_trace = [GetConnection 2, Query 2 (ascii ''KILL QUERY 42''),
                        RejectTimeout (timeout_message sample_host (Finite 10000))]\<rparr>"
proof -
  have a: "pool_getConnection sample_db = Resolves 1"
    and b: "connection_id sample_db = Resolves [JObj [(ascii ''id'', JNum 42)]]"
    by (simp_all add: sample_db_def)
  show ?thesis
    by (simp add: executeWithTimeout_def a b sample_connId sample_race sample_executeSql
        Let_def)
qed

lemma executed_text:
  assumes "pool_getConnection db = Resolves conn"
    and "connection_id db = Resolves idResult"
    and "first_row_id idResult = Inr connId"
  shows "Execute c text \<in> set (trace (executeWithTimeout h queryTimeout db (JStr sql)))
         \<longleftrightarrow> c = conn \<and> text = executeSql h queryTimeout sql"
  using assms
  by (auto simp add: executeWithTimeout_def Let_def split: prod.splits)

text \<open>
  Claim C10. When the timer has fired and its callback has got a connection of its own,
  a KILL command that fails leaves that connection unreleased: the callback goes from the
  failed command straight to \<open>reject\<close>, and the call ends as it would have after a
  successful KILL. The callback releases its connection exactly when the KILL command
  succeeded.
\<close>

theorem kill_connection_release:
  assumes "pool_getConnection db = Resolves conn"
    and "connection_id db = Resolves idResult"
    and "first_row_id idResult = Inr connId"
    and "js_toString h connId = Inr idText"
    and "deadline_fires (statement db)"
    and "kill_getConnection db = Resolves killConn"
  shows "(kill_query db = Rejects killError \<longrightarrow>
            deadline_trace (executeWithTimeout h queryTimeout db (JStr sql)) =
              [GetConnection killConn, Query killConn (ascii ''KILL QUERY '' @ idText),
               RejectTimeout (timeout_message h queryTimeout)]
            \<and> outcome (executeWithTimeout h queryTimeout db (JStr sql)) =
                outcome (executeWithTimeout h queryTimeout (db\<lparr>kill_query := Resolves ()\<rparr>)
                           (JStr sql)))
         \<and> (Release killConn \<in> set (deadline_trace (executeWithTimeout h queryTimeout db (JStr sql)))
              \<longleftrightarrow> kill_query db = Resolves ())
         \<and> (killConn \<noteq> conn \<longrightarrow>
              Release killConn \<notin> set (trace (executeWithTimeout h queryTimeout db (JStr sql))))"
  using assms
  by (auto simp add: executeWithTimeout_def race_def deadline_branch_def Let_def
      deadline_fires_def split: outcome.splits settles.splits if_splits)

theorem kill_connection_release_witness:
  "pool_getConnection sample_db = Resolves 1
   \<and> connection_id sample_db = Resolves [JObj [(ascii ''id'', JNum 42)]]
   \<and> first_row_id [JObj [(ascii ''id'', JNum 42 :: unit jsval)]] = Inr (JNum 42)
   \<and> js_toString sample_host (JNum 42) = Inr (ascii ''42'')
   \<and> deadline_fires (statement sample_db)
   \<and> kill_getConnection sample_db = Resolves 2
   \<and> kill_query sample_db = Rejects (DriverError (ascii ''Unknown thread id: 42''))
   \<and> deadline_trace (executeWithTimeout sample_host (Finite 10000) sample_db
                        (JStr (ascii ''select sleep(60)''))) =
       [GetConnection 2, Query 2 (ascii ''KILL QUERY '' @ ascii ''42''),
        RejectTimeout (timeout_message sample_host (Finite 10000))]
   \<and> Release 2 \<notin> set (deadline_trace (executeWithTimeout sample_host (Finite 10000) sample_db
                                          (JStr (ascii ''select sleep(60)''))))
   \<and> Release 2 \<notin> set (trace (executeWithTimeout sample_host (Finite 10000) sample_db
                                 (JStr (ascii ''select sleep(60)''))))"
proof -
  have a: "pool_getConnection sample_db = Resolves 1"
    and b: "connection_id sample_db = Resolves [JObj [(ascii ''id'', JNum 42)]]"
    and c: "deadline_fires (statement sample_db)"
    and d: "kill_getConnection sample_db = Resolves 2"
    and e: "kill_query sample_db = Rejects (DriverError (ascii ''Unknown thread id: 42''))"
    by (simp_all add: sample_db_def deadline_fires_def)
  have f: "kill_query sample_db \<noteq> Resolves ()" "(2::nat) \<noteq> 1"
    by (simp_all add: e)
  show ?thesis
    using kill_connection_release [OF a b sample_connId sample_idText c d,
        of "DriverError (ascii ''Unknown thread id: 42'')" "Finite 10000" "ascii ''select sleep(60)''"]
      a b sample_connId sample_idText c d e f
    by blast
qed



lemma executeSql_cases:
  "executeSql h queryTimeout sql =
     (if matches_SELECT_i (trim sql) \<and> startsWith (toUpperCase h (trim sql)) (ascii ''SELECT'')
      then ascii ''SELECT'' @ ascii '' /*+ MAX_EXECUTION_TIME(''
           @ jsnumber_toString h queryTimeout @ ascii '') */'' @ drop 6 (trim sql)
      else trim sql)"
  by (simp add: executeSql_def Let_def replace_SELECT_i_def hint_def)

lemma loaded_timeout_text:
  assumes "(parsed = Parsed (Finite n) \<and> n \<noteq> 0 \<and> \<bar>n\<bar> * 1000 < 2 ^ 53
              \<and> t = signed_decimal (n * 1000))
           \<or> ((parsed = NaN \<or> parsed = Parsed (Finite 0)) \<and> t = ascii ''10000'')
           \<or> (parsed = Parsed (Finite n) \<and> 2 ^ 53 \<le> \<bar>n\<bar> * 1000
              \<and> t = jsnumber_toString h (largeTimes1000 h n))
           \<or> (parsed = Parsed PlusInfinity \<and> t = ascii ''Infinity'')
           \<or> (parsed = Parsed MinusInfinity \<and> t = ascii ''-Infinity'')"
  shows "jsnumber_toString h (loadQueryTimeout h parsed) = t"
proof -
  have default: "signed_decimal 10000 = ascii ''10000''"
    by (simp add: eval_decimal ascii_def)
  show ?thesis
    using assms default
    by (auto simp add: loadQueryTimeout_def timeoutSeconds_def times1000_def
        jsnumber_toString_def number_toString_def abs_mult)
qed

text \<open>
  Claim C3. When the call reaches \<open>conn.execute\<close>, the one statement it executes is
  determined by the trimmed SQL text. If that text begins with \<open>select\<close> in any mix of
  ASCII cases (and \<open>toUpperCase\<close> turns that beginning into \<open>SELECT\<close>, as it does for
  ASCII letters), the statement is \<open>SELECT\<close>, the hint
  \<open>/*+ MAX_EXECUTION_TIME(t) */\<close> and the text that followed the keyword. If the trimmed
  text does not begin with \<open>select\<close>, it is executed without a hint. Here \<open>t\<close> is the
  text of the configured timeout in milliseconds: for \<open>n\<close> seconds read by \<open>parseInt\<close>
  from \<open>DB_QUERY_TIMEOUT\<close> the decimal digits of \<open>n * 1000\<close>, as long as this product is
  below \<open>2^53\<close>; \<open>10000\<close> when \<open>parseInt\<close> gives NaN or zero; what the engine prints for
  its product of \<open>n\<close> and 1000 for a larger \<open>n\<close>; and \<open>Infinity\<close> for an infinite one.
\<close>

theorem select_hint:
  assumes "pool_getConnection db = Resolves conn"
    and "connection_id db = Resolves idResult"
    and "first_row_id idResult = Inr connId"
    and "(parsed = Parsed (Finite n) \<and> n \<noteq> 0 \<and> \<bar>n\<bar> * 1000 < 2 ^ 53
            \<and> t = signed_decimal (n * 1000))
         \<or> ((parsed = NaN \<or> parsed = Parsed (Finite 0)) \<and> t = ascii ''10000'')
         \<or> (parsed = Parsed (Finite n) \<and> 2 ^ 53 \<le> \<bar>n\<bar> * 1000
            \<and> t = jsnumber_toString h (largeTimes1000 h n))
         \<or> (parsed = Parsed PlusInfinity \<and> t = ascii ''Infinity'')
         \<or> (parsed = Parsed MinusInfinity \<and> t = ascii ''-Infinity'')"
  shows "(matches_SELECT_i (trim sql)
          \<and> startsWith (toUpperCase h (trim sql)) (ascii ''SELECT'') \<longrightarrow>
            (Execute c text
               \<in> set (trace (executeWithTimeout h (loadQueryTimeout h parsed) db (JStr sql)))
             \<longleftrightarrow> c = conn
                 \<and> text = ascii ''SELECT'' @ ascii '' /*+ MAX_EXECUTION_TIME('' @ t
                          @ ascii '') */'' @ drop 6 (trim sql)))
         \<and> (\<not> matches_SELECT_i (trim sql) \<longrightarrow>
            (Execute c text
               \<in> set (trace (executeWithTimeout h (loadQueryTimeout h parsed) db (JStr sql)))
             \<longleftrightarrow> c = conn \<and> text = trim sql))"
  by (simp add: executed_text [OF assms(1-3)] executeSql_cases
      loaded_timeout_text [OF assms(4)])


lemma sample_reaches_execute:
  "pool_getConnection sample_db = Resolves 1"
  "connection_id sample_db = Resolves [JObj [(ascii ''id'', JNum 42)]]"
  by (simp_all add: sample_db_def)

lemma sample_select_trimmed:
  "trim (ascii ''  select sleep(60) '') = ascii ''select sleep(60)''"
  "matches_SELECT_i (ascii ''select sleep(60)'')"
  "startsWith (toUpperCase sample_host (ascii ''select sleep(60)'')) (ascii ''SELECT'')"
  "drop 6 (ascii ''select sleep(60)'') = ascii '' sleep(60)''"
  by (simp_all add: trim_def is_white_space_def matches_SELECT_i_def startsWith_def
      sample_host_def sample_toUpperCase_def ascii_upper_def ascii_def)

lemma sample_show_trimmed:
  "trim (ascii ''SHOW TABLE STATUS'') = ascii ''SHOW TABLE STATUS''"
  "\<not> matches_SELECT_i (ascii ''SHOW TABLE STATUS'')"
  by (simp_all add: trim_def is_white_space_def matches_SELECT_i_def ascii_upper_def ascii_def)

lemma sample_scenarios_settle:
  "pool_getConnection sample_db = Resolves 1"
  "connection_id sample_db \<noteq> Never"
  "statement sample_db \<noteq> NeverSettles"
  "pool_getConnection in_time_db = Resolves 1"
  "connection_id in_time_db \<noteq> Never"
  "statement in_time_db \<noteq> NeverSettles"
  "pool_getConnection refused_db = Resolves 1"
  "connection_id refused_db \<noteq> Never"
  "statement refused_db \<noteq> NeverSettles"
  by (simp_all add: sample_db_def in_time_db_def refused_db_def)

lemma sample_outcomes:
  "outcome (executeWithTimeout sample_host (Finite 10000) sample_db
              (JStr (ascii ''select sleep(60)''))) =
     Rejects (Error (timeout_message sample_host (Finite 10000)))"
  "outcome (executeWithTimeout sample_host (Finite 10000) in_time_db
              (JStr (ascii ''SELECT 1''))) =
     Resolves (JArr [JObj [(ascii ''1'', JNum 1)]])"
  "outcome (executeWithTimeout sample_host (Finite 10000) refused_db
              (JStr (ascii ''SELEC 1''))) =
     Rejects (DriverError (ascii ''You have an error in your SQL syntax''))"
proof -
  show "outcome (executeWithTimeout sample_host (Finite 10000) sample_db
              (JStr (ascii ''select sleep(60)''))) =
     Rejects (Error (timeout_message sample_host (Finite 10000)))"
    by (simp add: sample_timeout_run)
  have a: "connection_id in_time_db = Resolves [JObj [(ascii ''id'', JNum 42)]]"
    "statement in_time_db = BeforeDeadline (Inr (JArr [JObj [(ascii ''1'', JNum 1)]]))"
    "connection_id refused_db = Resolves [JObj [(ascii ''id'', JNum 42)]]"
    "statement refused_db =
       BeforeDeadline (Inl (DriverError (ascii ''You have an error in your SQL syntax'')))"
    by (simp_all add: in_time_db_def refused_db_def)
  show "outcome (executeWithTimeout sample_host (Finite 10000) in_time_db
              (JStr (ascii ''SELECT 1''))) =
     Resolves (JArr [JObj [(ascii ''1'', JNum 1)]])"
    by (simp add: executeWithTimeout_def sample_scenarios_settle a sample_connId race_def
        settled_def Let_def split: prod.splits)
  show "outcome (executeWithTimeout sample_host (Finite 10000) refused_db
              (JStr (ascii ''SELEC 1''))) =
     Rejects (DriverError (ascii ''You have an error in your SQL syntax''))"
    by (simp add: executeWithTimeout_def sample_scenarios_settle a sample_connId race_def
        settled_def Let_def split: prod.splits)
qed

theorem release_exactly_once_witness:
  "pool_getConnection sample_db = Resolves 1
   \<and> connection_id sample_db \<noteq> Never
   \<and> statement sample_db \<noteq> NeverSettles
   \<and> outcome (executeWithTimeout sample_host (Finite 10000) sample_db
                (JStr (ascii ''select sleep(60)''))) =
       Rejects (Error (timeout_message sample_host (Finite 10000)))
   \<and> length (filter (\<lambda>e. e = Release 1)
               (trace (executeWithTimeout sample_host (Finite 10000) sample_db
                         (JStr (ascii ''select sleep(60)''))))) = 1
   \<and> last (trace (executeWithTimeout sample_host (Finite 10000) sample_db
                     (JStr (ascii ''select sleep(60)'')))) = Release 1
   \<and> pool_getConnection in_time_db = Resolves 1
   \<and> connection_id in_time_db \<noteq> Never
   \<and> statement in_time_db \<noteq> NeverSettles
   \<and> outcome (executeWithTimeout sample_host (Finite 10000) in_time_db
                (JStr (ascii ''SELECT 1''))) =
       Resolves (JArr [JObj [(ascii ''1'', JNum 1)]])
   \<and> length (filter (\<lambda>e. e = Release 1)
               (trace (executeWithTimeout sample_host (Finite 10000) in_time_db
                         (JStr (ascii ''SELECT 1''))))) = 1
   \<and> last (trace (executeWithTimeout sample_host (Finite 10000) in_time_db
                     (JStr (ascii ''SELECT 1'')))) = Release 1
   \<and> pool_getConnection refused_db = Resolves 1
   \<and> connection_id refused_db \<noteq> Never
   \<and> statement refused_db \<noteq> NeverSettles
   \<and> outcome (executeWithTimeout sample_host (Finite 10000) refused_db
                (JStr (ascii ''SELEC 1''))) =
       Rejects (DriverError (ascii ''You have an error in your SQL syntax''))
   \<and> length (filter (\<lambda>e. e = Release 1)
               (trace (executeWithTimeout sample_host (Finite 10000) refused_db
                         (JStr (ascii ''SELEC 1''))))) = 1
   \<and> last (trace (executeWithTimeout sample_host (Finite 10000) refused_db
                     (JStr (ascii ''SELEC 1'')))) = Release 1"
  using release_exactly_once [OF sample_scenarios_settle(1),
      of sample_host "Finite 10000" "JStr (ascii ''select sleep(60)'')"]
    release_exactly_once [OF sample_scenarios_settle(4),
      of sample_host "Finite 10000" "JStr (ascii ''SELECT 1'')"]
    release_exactly_once [OF sample_scenarios_settle(7),
      of sample_host "Finite 10000" "JStr (ascii ''SELEC 1'')"]
    sample_scenarios_settle sample_outcomes
  by simp

lemma thirty_seconds:
  "(30::int) \<noteq> 0" "\<bar>30::int\<bar> * 1000 < 2 ^ 53"
  "signed_decimal (30 * 1000) = ascii ''30000''"
  "signed_decimal 30 = ascii ''30''"
  by (simp_all add: eval_decimal ascii_def)

lemma thirty_seconds_configured:
  "(Parsed (Finite 30) = Parsed (Finite 30) \<and> (30::int) \<noteq> 0 \<and> \<bar>30::int\<bar> * 1000 < 2 ^ 53
      \<and> ascii ''30000'' = signed_decimal (30 * 1000))
   \<or> ((Parsed (Finite 30) = NaN \<or> Parsed (Finite 30) = Parsed (Finite 0))
      \<and> ascii ''30000'' = ascii ''10000'')
   \<or> (Parsed (Finite 30) = Parsed (Finite 30) \<and> 2 ^ 53 \<le> \<bar>30::int\<bar> * 1000
      \<and> ascii ''30000'' = jsnumber_toString sample_host (largeTimes1000 sample_host 30))
   \<or> (Parsed (Finite 30) = Parsed PlusInfinity \<and> ascii ''30000'' = ascii ''Infinity'')
   \<or> (Parsed (Finite 30) = Parsed MinusInfinity \<and> ascii ''30000'' = ascii ''-Infinity'')"
  using thirty_seconds by simp

lemma nothing_configured:
  "(NaN = Parsed (Finite 0) \<and> (0::int) \<noteq> 0 \<and> \<bar>0::int\<bar> * 1000 < 2 ^ 53
      \<and> ascii ''10000'' = signed_decimal (0 * 1000))
   \<or> ((NaN = NaN \<or> NaN = Parsed (Finite 0)) \<and> ascii ''10000'' = ascii ''10000'')
   \<or> (NaN = Parsed (Finite 0) \<and> 2 ^ 53 \<le> \<bar>0::int\<bar> * 1000
      \<and> ascii ''10000'' = jsnumber_toString sample_host (largeTimes1000 sample_host 0))
   \<or> (NaN = Parsed PlusInfinity \<and> ascii ''10000'' = ascii ''Infinity'')
   \<or> (NaN = Parsed MinusInfinity \<and> ascii ''10000'' = ascii ''-Infinity'')"
  by simp

theorem select_hint_witness:
  "pool_getConnection sample_db = Resolves 1
   \<and> connection_id sample_db = Resolves [JObj [(ascii ''id'', JNum 42)]]
   \<and> first_row_id [JObj [(ascii ''id'', JNum 42 :: unit jsval)]] = Inr (JNum 42)
   \<and> (30::int) \<noteq> 0 \<and> \<bar>30::int\<bar> * 1000 < 2 ^ 53
   \<and> signed_decimal (30 * 1000) = ascii ''30000''
   \<and> matches_SELECT_i (trim (ascii ''  select sleep(60) ''))
   \<and> startsWith (toUpperCase sample_host (trim (ascii ''  select sleep(60) '')))
        (ascii ''SELECT'')
   \<and> Execute 1 (ascii ''SELECT'' @ ascii '' /*+ MAX_EXECUTION_TIME('' @ ascii ''30000''
                 @ ascii '') */'' @ ascii '' sleep(60)'')
       \<in> set (trace (executeWithTimeout sample_host
                        (loadQueryTimeout sample_host (Parsed (Finite 30))) sample_db
                        (JStr (ascii ''  select sleep(60) ''))))
   \<and> Execute 1 (ascii ''SELECT'' @ ascii '' /*+ MAX_EXECUTION_TIME('' @ ascii ''10000''
                 @ ascii '') */'' @ ascii '' sleep(60)'')
       \<in> set (trace (executeWithTimeout sample_host (loadQueryTimeout sample_host NaN)
                        sample_db (JStr (ascii ''  select sleep(60) ''))))
   \<and> \<not> matches_SELECT_i (trim (ascii ''SHOW TABLE STATUS''))
   \<and> Execute 1 (ascii ''SHOW TABLE STATUS'')
       \<in> set (trace (executeWithTimeout sample_host
                        (loadQueryTimeout sample_host (Parsed (Finite 30))) sample_db
                        (JStr (ascii ''SHOW TABLE STATUS''))))"
  using select_hint [OF sample_reaches_execute sample_connId thirty_seconds_configured,
      of "ascii ''  select sleep(60) ''" 1
         "ascii ''SELECT'' @ ascii '' /*+ MAX_EXECUTION_TIME('' @ ascii ''30000''
                 @ ascii '') */'' @ ascii '' sleep(60)''"]
    select_hint [OF sample_reaches_execute sample_connId nothing_configured,
      of "ascii ''  select sleep(60) ''" 1
         "ascii ''SELECT'' @ ascii '' /*+ MAX_EXECUTION_TIME('' @ ascii ''10000''
                 @ ascii '') */'' @ ascii '' sleep(60)''"]
    select_hint [OF sample_reaches_execute sample_connId thirty_seconds_configured,
      of "ascii ''SHOW TABLE STATUS''" 1 "ascii ''SHOW TABLE STATUS''"]
    sample_reaches_execute sample_connId thirty_seconds sample_select_trimmed
    sample_show_trimmed
  by simp




subsection \<open>The dispatcher\<close>

lemma method_names_distinct:
  "ascii ''initialize'' \<noteq> ascii ''tools/call''"
  "ascii ''tools/list'' \<noteq> ascii ''tools/call''"
  by (simp_all add: ascii_def)

lemma tool_names_distinct:
  "ascii ''query'' \<noteq> ascii ''list_tables''"
  "ascii ''query'' \<noteq> ascii ''describe_table''"
  "ascii ''list_tables'' \<noteq> ascii ''describe_table''"
  by (simp_all add: ascii_def)

lemma handleRequest_tools_call:
  assumes "JSON_parse h line = Some requestData"
    and "get_property requestData (ascii ''id'') = rid"
    and "\<not> nullish rid"
    and "get_property requestData (ascii ''method'') = JStr (ascii ''tools/call'')"
  shows "handleRequest h queryTimeout db line =
           catch_error h rid
             (tools_call h queryTimeout db rid (get_property requestData (ascii ''params'')))"
  using assms method_names_distinct
  by (auto simp add: handleRequest_def nullish_def Let_def dispatch_def get_property_def)

lemma js_toString_cases:
  "js_toString h name =
     (case name of
        JUndefined \<Rightarrow> Inr (ascii ''undefined'')
      | JNull \<Rightarrow> Inr (ascii ''null'')
      | JBool b \<Rightarrow> Inr (if b then ascii ''true'' else ascii ''false'')
      | JNum n \<Rightarrow> Inr (if \<bar>n\<bar> < 2 ^ 53 then signed_decimal n else largeToString h n)
      | JFrac x \<Rightarrow> Inr (fracToString h x)
      | JStr s \<Rightarrow> Inr s
      | JArr xs \<Rightarrow> js_toString h (JArr xs)
      | JObj kvs \<Rightarrow>
          if ascii ''toString'' \<in> fst ` set kvs
          then Inl (TypeError Not_convertible_to_primitive)
          else Inr (ascii ''[object Object]''))"
  by (cases name) (simp_all add: number_toString_def)

lemma js_toString_error:
  "js_toString h v = Inl e \<Longrightarrow> e = TypeError Not_convertible_to_primitive"
proof (induction h v arbitrary: e rule: js_toString.induct)
  case (7 h xs)
  have "\<exists>x \<in> set xs. \<not> nullish x \<and> js_toString h x = Inl e"
    if "collect (map (\<lambda>x. if nullish x then Inr [] else js_toString h x) ys) = Inl e"
      and "set ys \<subseteq> set xs" for ys
    using that
  proof (induction ys)
    case Nil
    then show ?case by simp
  next
    case (Cons y ys)
    then show ?case
      by (cases "if nullish y then Inr [] else js_toString h y")
        (auto split: if_splits sum.splits)
  qed
  then obtain x where "x \<in> set xs" "\<not> nullish x" "js_toString h x = Inl e"
    using "7.prems" by (auto split: sum.splits)
  then show ?case
    using "7.IH" by blast
qed (auto split: if_splits)

lemma unknown_tool_response:
  assumes "JSON_parse h line = Some requestData"
    and "get_property requestData (ascii ''id'') = rid"
    and "\<not> nullish rid"
    and "get_property requestData (ascii ''method'') = JStr (ascii ''tools/call'')"
    and "get_property requestData (ascii ''params'') = params"
    and "get_property params (ascii ''name'') = name"
    and "name \<notin> {JStr (ascii ''query''), JStr (ascii ''list_tables''),
                  JStr (ascii ''describe_table'')}"
    and "nameText =
           (case name of
              JUndefined \<Rightarrow> Inr (ascii ''undefined'')
            | JNull \<Rightarrow> Inr (ascii ''null'')
            | JBool b \<Rightarrow> Inr (if b then ascii ''true'' else ascii ''false'')
            | JNum n \<Rightarrow> Inr (if \<bar>n\<bar> < 2 ^ 53 then signed_decimal n else largeToString h n)
            | JFrac x \<Rightarrow> Inr (fracToString h x)
            | JStr s \<Rightarrow> Inr s
            | JArr xs \<Rightarrow> js_toString h (JArr xs)
            | JObj kvs \<Rightarrow>
                if ascii ''toString'' \<in> fst ` set kvs
                then Inl (TypeError Not_convertible_to_primitive)
                else Inr (ascii ''[object Object]''))"
    and "text =
           (if params = JUndefined
            then typeErrorMessage h (Destructure_params Undefined_value)
            else if params = JNull
            then typeErrorMessage h (Destructure_params Null_value)
            else case nameText of
                   Inl e \<Rightarrow> typeErrorMessage h Not_convertible_to_primitive
                 | Inr s \<Rightarrow> [0x672A, 0x77E5, 0x7684, 0x5DE5, 0x5177, 0x3A, 0x20] @ s)"
  shows "handleRequest h queryTimeout db line =
           quiet (Resolves (Some
             (JObj [(ascii ''jsonrpc'', JStr (ascii ''2.0'')), (ascii ''id'', rid),
                    (ascii ''error'',
                     JObj [(ascii ''code'', JNum (- 32603)),
                           (ascii ''message'', JStr text)])])))"
proof -
  have nameText: "nameText = js_toString h name"
    using assms(8) js_toString_cases [of h name] by simp
  show ?thesis
  proof (cases "nullish params")
    case True
    then show ?thesis
      using assms(3,9)
      by (auto simp add: handleRequest_tools_call [OF assms(1-4)] assms(5) tools_call_def
          catch_error_def quiet_def message_def nullish_def kind_of_def envelope_error_def)
  next
    case False
    show ?thesis
    proof (cases "js_toString h name")
      case (Inl e)
      then have "e = TypeError Not_convertible_to_primitive"
        by (rule js_toString_error)
      then show ?thesis
        using False Inl assms(3,6,7,9) nameText
        by (auto simp add: handleRequest_tools_call [OF assms(1-4)] assms(5) tools_call_def
            Let_def catch_error_def quiet_def message_def nullish_def envelope_error_def)
    next
      case (Inr s)
      then show ?thesis
        using False assms(3,6,7,9) nameText
        by (auto simp add: handleRequest_tools_call [OF assms(1-4)] assms(5) tools_call_def
            Let_def catch_error_def quiet_def message_def nullish_def envelope_error_def
            unknown_tool_prefix_def)
    qed
  qed
qed

text \<open>
  Claim C7, amended. A \<open>tools/call\<close> request with an id, whose tool name is none of
  \<open>query\<close>, \<open>list_tables\<close>, \<open>describe_table\<close>, is answered by an error envelope of code
  -32603 without any event on the pool or a connection. When \<open>params\<close> is absent or null
  the message is the engine's text for the failed destructuring, one text for each of
  the two. Otherwise, when the name has a string form, the message is the unknown-tool
  text of line 310 followed by that form: the string itself, \<open>undefined\<close> for an absent
  name, \<open>null\<close>, \<open>true\<close> or \<open>false\<close>, the digits of an integer below \<open>2^53\<close>, what the
  engine prints for any other number, \<open>[object Object]\<close> for an object without an own
  \<open>toString\<close> property, the joined forms of the elements for an array. When the name
  has no string form the message is the engine's text for the failed conversion.
\<close>

theorem unknown_tool_error:
  assumes "JSON_parse h line = Some requestData"
    and "get_property requestData (ascii ''id'') = rid"
    and "\<not> nullish rid"
    and "get_property requestData (ascii ''method'') = JStr (ascii ''tools/call'')"
    and "get_property requestData (ascii ''params'') = params"
    and "get_property params (ascii ''name'') = name"
    and "name \<notin> {JStr (ascii ''query''), JStr (ascii ''list_tables''),
                  JStr (ascii ''describe_table'')}"
    and "nameText =
           (case name of
              JUndefined \<Rightarrow> Inr (ascii ''undefined'')
            | JNull \<Rightarrow> Inr (ascii ''null'')
            | JBool b \<Rightarrow> Inr (if b then ascii ''true'' else ascii ''false'')
            | JNum n \<Rightarrow> Inr (if \<bar>n\<bar> < 2 ^ 53 then signed_decimal n else largeToString h n)
            | JFrac x \<Rightarrow> Inr (fracToString h x)
            | JStr s \<Rightarrow> Inr s
            | JArr xs \<Rightarrow> js_toString h (JArr xs)
            | JObj kvs \<Rightarrow>
                if ascii ''toString'' \<in> fst ` set kvs
                then Inl (TypeError Not_convertible_to_primitive)
                else Inr (ascii ''[object Object]''))"
    and "text =
           (if params = JUndefined
            then typeErrorMessage h (Destructure_params Undefined_value)
            else if params = JNull
            then typeErrorMessage h (Destructure_params Null_value)
            else case nameText of
                   Inl e \<Rightarrow> typeErrorMessage h Not_convertible_to_primitive
                 | Inr s \<Rightarrow> [0x672A, 0x77E5, 0x7684, 0x5DE5, 0x5177, 0x3A, 0x20] @ s)"
  shows "handleRequest h queryTimeout db line =
           quiet (Resolves (Some
             (JObj [(ascii ''jsonrpc'', JStr (ascii ''2.0'')), (ascii ''id'', rid),
                    (ascii ''error'',
                     JObj [(ascii ''code'', JNum (- 32603)),
                           (ascii ''message'', JStr text)])])))
         \<and> trace (handleRequest h queryTimeout db line) = []
         \<and> deadline_trace (handleRequest h queryTimeout db line) = []
         \<and> on_line h queryTimeout db line =
             [JSON_stringify h
                (JObj [(ascii ''jsonrpc'', JStr (ascii ''2.0'')), (ascii ''id'', rid),
                       (ascii ''error'',
                        JObj [(ascii ''code'', JNum (- 32603)),
                              (ascii ''message'', JStr text)])])]"
  by (simp add: unknown_tool_response [OF assms] on_line_def)

lemma sample_parse_unknown_tool:
  "JSON_parse sample_host unknown_tool_line = Some unknown_tool_request"
  "JSON_parse sample_host no_params_line = Some no_params_request"
  "JSON_parse sample_host null_params_line = Some null_params_request"
  by (simp_all add: sample_host_def sample_parse_def sample_lines ascii_def)

lemma unknown_tool_request_fields:
  "get_property unknown_tool_request (ascii ''id'') = JNum 3"
  "get_property unknown_tool_request (ascii ''method'') = JStr (ascii ''tools/call'')"
  "get_property unknown_tool_request (ascii ''params'') =
     JObj [(ascii ''name'', JStr (ascii ''drop_table''))]"
  "get_property (JObj [(ascii ''name'', JStr (ascii ''drop_table'' ) :: unit jsval)])
     (ascii ''name'') = JStr (ascii ''drop_table'')"
  by (simp_all add: unknown_tool_request_def get_property_def ascii_def)

lemma no_params_request_fields:
  "get_property no_params_request (ascii ''id'') = JNum 6"
  "get_property no_params_request (ascii ''method'') = JStr (ascii ''tools/call'')"
  "get_property no_params_request (ascii ''params'') = JUndefined"
  "get_property null_params_request (ascii ''id'') = JNum 7"
  "get_property null_params_request (ascii ''method'') = JStr (ascii ''tools/call'')"
  "get_property null_params_request (ascii ''params'') = JNull"
  "get_property (JUndefined :: unit jsval) (ascii ''name'') = JUndefined"
  "get_property (JNull :: unit jsval) (ascii ''name'') = JUndefined"
  by (simp_all add: no_params_request_def null_params_request_def get_property_def ascii_def)

lemma drop_table_unknown:
  "JStr (ascii ''drop_table'') \<notin>
     {JStr (ascii ''query''), JStr (ascii ''list_tables''),
      JStr (ascii ''describe_table'') :: unit jsval}"
  "JUndefined \<notin>
     {JStr (ascii ''query''), JStr (ascii ''list_tables''),
      JStr (ascii ''describe_table'') :: unit jsval}"
  "\<not> nullish (JNum 3 :: unit jsval)"
  "\<not> nullish (JNum 6 :: unit jsval)"
  "\<not> nullish (JNum 7 :: unit jsval)"
  by (simp_all add: ascii_def nullish_def)

theorem unknown_tool_error_witness:
  "JSON_parse sample_host unknown_tool_line = Some unknown_tool_request
   \<and> get_property unknown_tool_request (ascii ''id'') = JNum 3
   \<and> \<not> nullish (JNum 3 :: unit jsval)
   \<and> get_property unknown_tool_request (ascii ''method'') = JStr (ascii ''tools/call'')
   \<and> get_property unknown_tool_request (ascii ''params'') =
       JObj [(ascii ''name'', JStr (ascii ''drop_table''))]
   \<and> get_property (JObj [(ascii ''name'', JStr (ascii ''drop_table'') :: unit jsval)])
        (ascii ''name'') = JStr (ascii ''drop_table'')
   \<and> JStr (ascii ''drop_table'') \<notin>
       {JStr (ascii ''query''), JStr (ascii ''list_tables''),
        JStr (ascii ''describe_table'') :: unit jsval}
   \<and> handleRequest sample_host (Finite 10000) sample_db unknown_tool_line =
       quiet (Resolves (Some
         (JObj [(ascii ''jsonrpc'', JStr (ascii ''2.0'')), (ascii ''id'', JNum 3),
                (ascii ''error'',
                 JObj [(ascii ''code'', JNum (- 32603)),
                       (ascii ''message'',
                        JStr ([0x672A, 0x77E5, 0x7684, 0x5DE5, 0x5177, 0x3A, 0x20]
                              @ ascii ''drop_table''))])])))
   \<and> trace (handleRequest sample_host (Finite 10000) sample_db unknown_tool_line) = []
   \<and> JSON_parse sample_host no_params_line = Some no_params_request
   \<and> get_property no_params_request (ascii ''params'') = JUndefined
   \<and> handleRequest sample_host (Finite 10000) sample_db no_params_line =
       quiet (Resolves (Some
         (JObj [(ascii ''jsonrpc'', JStr (ascii ''2.0'')), (ascii ''id'', JNum 6),
                (ascii ''error'',
                 JObj [(ascii ''code'', JNum (- 32603)),
                       (ascii ''message'',
                        JStr (sample_typeErrorMessage
                                (Destructure_params Undefined_value)))])])))
   \<and> JSON_parse sample_host null_params_line = Some null_params_request
   \<and> get_property null_params_request (ascii ''params'') = JNull
   \<and> handleRequest sample_host (Finite 10000) sample_db null_params_line =
       quiet (Resolves (Some
         (JObj [(ascii ''jsonrpc'', JStr (ascii ''2.0'')), (ascii ''id'', JNum 7),
                (ascii ''error'',
                 JObj [(ascii ''code'', JNum (- 32603)),
                       (ascii ''message'',
                        JStr (sample_typeErrorMessage
                                (Destructure_params Null_value)))])])))"
proof -
  have host: "typeErrorMessage sample_host = sample_typeErrorMessage"
    by (simp add: sample_host_def)
  show ?thesis
    using unknown_tool_error [OF sample_parse_unknown_tool(1) unknown_tool_request_fields(1)
        drop_table_unknown(3) unknown_tool_request_fields(2,3,4) drop_table_unknown(1)
        refl refl, of "Finite 10000" sample_db]
      unknown_tool_error [OF sample_parse_unknown_tool(2) no_params_request_fields(1)
        drop_table_unknown(4) no_params_request_fields(2,3,7) drop_table_unknown(2)
        refl refl, of "Finite 10000" sample_db]
      unknown_tool_error [OF sample_parse_unknown_tool(3) no_params_request_fields(4)
        drop_table_unknown(5) no_params_request_fields(5,6,8) drop_table_unknown(2)
        refl refl, of "Finite 10000" sample_db]
      sample_parse_unknown_tool unknown_tool_request_fields no_params_request_fields
      drop_table_unknown host
    by simp
qed

lemma sample_parse_object_name:
  "JSON_parse sample_host object_name_line = Some object_name_request"
  by (simp add: sample_host_def sample_parse_def sample_lines ascii_def)

lemma object_name_request_fields:
  "get_property object_name_request (ascii ''id'') = JNum 4"
  "get_property object_name_request (ascii ''method'') = JStr (ascii ''tools/call'')"
  "get_property object_name_request (ascii ''params'') =
     JObj [(ascii ''name'', JObj [(ascii ''toString'', JNum 1)])]"
  "get_property (JObj [(ascii ''name'', JObj [(ascii ''toString'', JNum 1 :: unit jsval)])])
     (ascii ''name'') = JObj [(ascii ''toString'', JNum 1)]"
  by (simp_all add: object_name_request_def get_property_def ascii_def)

lemma object_name_unknown:
  "JObj [(ascii ''toString'', JNum 1)] \<notin>
     {JStr (ascii ''query''), JStr (ascii ''list_tables''),
      JStr (ascii ''describe_table'') :: unit jsval}"
  "\<not> nullish (JNum 4 :: unit jsval)"
  by (simp_all add: nullish_def)

text \<open>
  Claim C7 as stated says the message names the tool. A name that is an object with an
  own \<open>toString\<close> property has no string form: the template literal of line 310 raises a
  TypeError, and the envelope carries that error's message.
\<close>

theorem unknown_tool_named_counterexample:
  "JSON_parse sample_host object_name_line = Some object_name_request
   \<and> get_property object_name_request (ascii ''id'') = JNum 4
   \<and> get_property object_name_request (ascii ''method'') = JStr (ascii ''tools/call'')
   \<and> get_property (get_property object_name_request (ascii ''params'')) (ascii ''name'')
       = JObj [(ascii ''toString'', JNum 1)]
   \<and> JObj [(ascii ''toString'', JNum 1)] \<notin>
       {JStr (ascii ''query''), JStr (ascii ''list_tables''),
        JStr (ascii ''describe_table'') :: unit jsval}
   \<and> js_toString sample_host (JObj [(ascii ''toString'', JNum 1)]) =
       Inl (TypeError Not_convertible_to_primitive)
   \<and> outcome (handleRequest sample_host (Finite 10000) sample_db object_name_line) =
       Resolves (Some
         (JObj [(ascii ''jsonrpc'', JStr (ascii ''2.0'')), (ascii ''id'', JNum 4),
                (ascii ''error'',
                 JObj [(ascii ''code'', JNum (- 32603)),
                       (ascii ''message'',
                        JStr (ascii ''Cannot convert object to primitive value''))])]))
   \<and> \<not> startsWith (ascii ''Cannot convert object to primitive value'')
         [0x672A, 0x77E5, 0x7684, 0x5DE5, 0x5177, 0x3A, 0x20]"
proof -
  have a: "js_toString sample_host (JObj [(ascii ''toString'', JNum 1)]) =
       Inl (TypeError Not_convertible_to_primitive)"
    by simp
  have b: "typeErrorMessage sample_host Not_convertible_to_primitive =
       ascii ''Cannot convert object to primitive value''"
    by (simp add: sample_host_def sample_typeErrorMessage_def)
  have c: "\<not> startsWith (ascii ''Cannot convert object to primitive value'')
         [0x672A, 0x77E5, 0x7684, 0x5DE5, 0x5177, 0x3A, 0x20]"
    by (simp add: startsWith_def ascii_def)
  have d: "JObj [(ascii ''name'', JObj [(ascii ''toString'', JNum 1 :: unit jsval)])]
             \<noteq> JUndefined"
    "JObj [(ascii ''name'', JObj [(ascii ''toString'', JNum 1 :: unit jsval)])] \<noteq> JNull"
    by simp_all
  show ?thesis
    using unknown_tool_response [OF sample_parse_object_name object_name_request_fields(1)
        object_name_unknown(2) object_name_request_fields(2,3,4) object_name_unknown(1)
        refl refl, of "Finite 10000" sample_db]
      sample_parse_object_name object_name_request_fields object_name_unknown a b c d
    by simp
qed

lemma tools_call_reaches_executor:
  assumes "\<not> nullish params"
    and "get_property params (ascii ''name'') = name"
    and "get_property params (ascii ''arguments'') = args"
    and "(name = JStr (ascii ''query'') \<and> \<not> nullish args
            \<and> get_property args (ascii ''sql'') = JStr sql)
         \<or> (name = JStr (ascii ''list_tables'') \<and> sql = ascii ''SHOW TABLE STATUS'')
         \<or> (name = JStr (ascii ''describe_table'') \<and> \<not> nullish args
            \<and> js_toString h (get_property args (ascii ''table'')) = Inr tableText
            \<and> sql = ascii ''SHOW FULL COLUMNS FROM '' @ tableText)"
  shows "\<exists>k. tools_call h queryTimeout db rid params =
               after_rows (executeWithTimeout h queryTimeout db (JStr sql)) k"
  using assms tool_names_distinct
  by (auto simp add: tools_call_def Let_def read_property_def)

lemma rejected_call_surfaced:
  assumes "\<not> nullish rid"
    and "outcome x = Rejects error"
  shows "outcome (catch_error h rid (after_rows x k)) =
           Resolves (Some (envelope_error rid (- 32603) (message h error)))"
  using assms by (simp add: catch_error_def after_rows_def nullish_def)

lemma loaded_seconds_text:
  assumes "(parsed = Parsed (Finite n) \<and> n \<noteq> 0 \<and> \<bar>n\<bar> * 1000 < 2 ^ 53
              \<and> s = signed_decimal n)
           \<or> ((parsed = NaN \<or> parsed = Parsed (Finite 0)) \<and> s = ascii ''10'')
           \<or> (parsed = Parsed (Finite n) \<and> 2 ^ 53 \<le> \<bar>n\<bar> * 1000
              \<and> s = jsnumber_toString h (floor_div1000 h (largeTimes1000 h n)))
           \<or> (parsed = Parsed PlusInfinity \<and> s = ascii ''Infinity'')
           \<or> (parsed = Parsed MinusInfinity \<and> s = ascii ''-Infinity'')"
  shows "jsnumber_toString h (floor_div1000 h (loadQueryTimeout h parsed)) = s"
proof -
  have default: "signed_decimal 10 = ascii ''10''"
    by (simp add: eval_decimal ascii_def)
  have small: "\<bar>n\<bar> < 2 ^ 53" if "\<bar>n\<bar> * 1000 < 2 ^ 53"
    using that by linarith
  show ?thesis
    using assms default small
    by (auto simp add: loadQueryTimeout_def timeoutSeconds_def times1000_def
        floor_div1000_def jsnumber_toString_def number_toString_def abs_mult)
qed

lemma callback_trace:
  assumes "pool_getConnection db = Resolves conn"
    and "connection_id db = Resolves idResult"
    and "first_row_id idResult = Inr connId"
    and "deadline_fires (statement db)"
  shows "deadline_trace (executeWithTimeout h queryTimeout db (JStr sql)) =
           (case kill_getConnection db of
              Never \<Rightarrow> []
            | Rejects killError \<Rightarrow> [RejectTimeout (timeout_message h queryTimeout)]
            | Resolves killConn \<Rightarrow>
                GetConnection killConn #
                (case js_toString h connId of
                   Inl killError \<Rightarrow> [RejectTimeout (timeout_message h queryTimeout)]
                 | Inr idText \<Rightarrow>
                     Query killConn (ascii ''KILL QUERY '' @ idText) #
                     (case kill_query db of
                        Never \<Rightarrow> []
                      | Rejects killError \<Rightarrow>
                          [RejectTimeout (timeout_message h queryTimeout)]
                      | Resolves u \<Rightarrow>
                          [Release killConn,
                           RejectTimeout (timeout_message h queryTimeout)])))"
  using assms
  by (auto simp add: executeWithTimeout_def race_def deadline_branch_def Let_def
      deadline_fires_def split: outcome.splits settles.splits sum.splits)

lemma callback_rejects:
  assumes "pool_getConnection db = Resolves conn"
    and "connection_id db = Resolves idResult"
    and "first_row_id idResult = Inr connId"
    and "unsettled_at_reject (statement db)"
    and "case kill_getConnection db of
           Never \<Rightarrow> False
         | Rejects killError \<Rightarrow> True
         | Resolves killConn \<Rightarrow>
             (case js_toString h connId of
                Inl killError \<Rightarrow> True
              | Inr idText \<Rightarrow> kill_query db \<noteq> Never)"
  shows "outcome (executeWithTimeout h queryTimeout db (JStr sql)) =
           Rejects (Error (timeout_message h queryTimeout))"
  using assms
  by (auto simp add: executeWithTimeout_def race_def deadline_branch_def Let_def
      unsettled_at_reject_def split: outcome.splits settles.splits sum.splits)

lemma statement_wins:
  assumes "pool_getConnection db = Resolves conn"
    and "connection_id db = Resolves idResult"
    and "first_row_id idResult = Inr connId"
  shows "statement db = DuringKillStep (Inr rows) \<Longrightarrow>
           outcome (executeWithTimeout h queryTimeout db (JStr sql)) = Resolves rows"
    and "statement db = DuringKillStep (Inl error) \<Longrightarrow>
           outcome (executeWithTimeout h queryTimeout db (JStr sql)) = Rejects error"
  using assms
  by (auto simp add: executeWithTimeout_def race_def Let_def settled_def
      split: prod.splits)

text \<open>
  Claim C1, amended. Take a \<open>tools/call\<close> request with an id for one of the three
  tools, whose call of the executor got its connection and the session id, and whose
  statement has not settled when the timer fires. The timer's callback then asks the
  pool for a connection of its own. When it gets one it sends \<open>KILL QUERY\<close> on it with
  the session id read from the borrowed connection (provided that id has a string form)
  and, when the command succeeded, releases it. Every error of the pool, of the
  conversion and of the command is dropped. The callback comes to its \<open>reject\<close> unless
  the pool or the KILL command leaves it waiting for ever.

  If the callback comes to its \<open>reject\<close> and the statement is still unsettled, the call
  fails with the timeout error, and the dispatcher answers with the error envelope of
  code -32603 and the error's message. The message is the text of line 100 around the
  configured seconds and ends with the advice to try again. For \<open>n\<close> seconds read by
  \<open>parseInt\<close> the seconds are the decimal digits of \<open>n\<close>, as long as \<open>n * 1000\<close> is below
  \<open>2^53\<close>; \<open>10\<close> when \<open>parseInt\<close> gives NaN or zero; what the engine computes and prints
  for a larger \<open>n\<close>; \<open>Infinity\<close> for an infinite one.

  If the statement settles while the callback is waiting, the call ends with the
  statement's rows or error instead.
\<close>

theorem deadline_kills_and_fails:
  assumes "JSON_parse h line = Some requestData"
    and "get_property requestData (ascii ''id'') = rid"
    and "\<not> nullish rid"
    and "get_property requestData (ascii ''method'') = JStr (ascii ''tools/call'')"
    and "get_property requestData (ascii ''params'') = params"
    and "\<not> nullish params"
    and "get_property params (ascii ''name'') = name"
    and "get_property params (ascii ''arguments'') = args"
    and "(name = JStr (ascii ''query'') \<and> \<not> nullish args
            \<and> get_property args (ascii ''sql'') = JStr sql)
         \<or> (name = JStr (ascii ''list_tables'') \<and> sql = ascii ''SHOW TABLE STATUS'')
         \<or> (name = JStr (ascii ''describe_table'') \<and> \<not> nullish args
            \<and> js_toString h (get_property args (ascii ''table'')) = Inr tableText
            \<and> sql = ascii ''SHOW FULL COLUMNS FROM '' @ tableText)"
    and "(parsed = Parsed (Finite n) \<and> n \<noteq> 0 \<and> \<bar>n\<bar> * 1000 < 2 ^ 53
            \<and> seconds = signed_decimal n)
         \<or> ((parsed = NaN \<or> parsed = Parsed (Finite 0)) \<and> seconds = ascii ''10'')
         \<or> (parsed = Parsed (Finite n) \<and> 2 ^ 53 \<le> \<bar>n\<bar> * 1000
            \<and> seconds = jsnumber_toString h (floor_div1000 h (largeTimes1000 h n)))
         \<or> (parsed = Parsed PlusInfinity \<and> seconds = ascii ''Infinity'')
         \<or> (parsed = Parsed MinusInfinity \<and> seconds = ascii ''-Infinity'')"
    and "msg =
           [0x67E5, 0x8BE2, 0x8D85, 0x65F6, 0xFF1A, 0x67E5, 0x8BE2, 0x6267, 0x884C, 0x8D85,
            0x8FC7, 0x20]
           @ seconds
           @ [0x20, 0x79D2, 0x672A, 0x54CD, 0x5E94, 0xFF0C, 0x5DF2, 0x81EA, 0x52A8, 0x7EC8,
              0x6B62, 0x3002, 0x8BF7, 0x91CD, 0x65B0, 0x5C1D, 0x8BD5, 0x6267, 0x884C,
              0xFF01]"
    and "queryTimeout = loadQueryTimeout h parsed"
    and "pool_getConnection db = Resolves conn"
    and "connection_id db = Resolves idResult"
    and "first_row_id idResult = Inr connId"
    and "deadline_fires (statement db)"
  shows "deadline_trace (executeWithTimeout h queryTimeout db (JStr sql)) =
           (case kill_getConnection db of
              Never \<Rightarrow> []
            | Rejects killError \<Rightarrow> [RejectTimeout msg]
            | Resolves killConn \<Rightarrow>
                GetConnection killConn #
                (case js_toString h connId of
                   Inl killError \<Rightarrow> [RejectTimeout msg]
                 | Inr idText \<Rightarrow>
                     Query killConn (ascii ''KILL QUERY '' @ idText) #
                     (case kill_query db of
                        Never \<Rightarrow> []
                      | Rejects killError \<Rightarrow> [RejectTimeout msg]
                      | Resolves u \<Rightarrow> [Release killConn, RejectTimeout msg])))
         \<and> (unsettled_at_reject (statement db)
              \<and> (case kill_getConnection db of
                    Never \<Rightarrow> False
                  | Rejects killError \<Rightarrow> True
                  | Resolves killConn \<Rightarrow>
                      (case js_toString h connId of
                         Inl killError \<Rightarrow> True
                       | Inr idText \<Rightarrow> kill_query db \<noteq> Never)) \<longrightarrow>
               outcome (executeWithTimeout h queryTimeout db (JStr sql)) =
                 Rejects (Error msg)
               \<and> outcome (handleRequest h queryTimeout db line) =
                   Resolves (Some
                     (JObj [(ascii ''jsonrpc'', JStr (ascii ''2.0'')), (ascii ''id'', rid),
                            (ascii ''error'',
                             JObj [(ascii ''code'', JNum (- 32603)),
                                   (ascii ''message'', JStr msg)])]))
               \<and> on_line h queryTimeout db line =
                   [JSON_stringify h
                      (JObj [(ascii ''jsonrpc'', JStr (ascii ''2.0'')), (ascii ''id'', rid),
                             (ascii ''error'',
                              JObj [(ascii ''code'', JNum (- 32603)),
                                    (ascii ''message'', JStr msg)])])])
         \<and> (statement db = DuringKillStep (Inr rows) \<longrightarrow>
               outcome (executeWithTimeout h queryTimeout db (JStr sql)) = Resolves rows)
         \<and> (statement db = DuringKillStep (Inl error) \<longrightarrow>
               outcome (executeWithTimeout h queryTimeout db (JStr sql)) = Rejects error)"
proof -
  have msg: "timeout_message h queryTimeout = msg"
    using loaded_seconds_text [OF assms(10)] assms(11,12)
    by (simp add: timeout_message_def timeout_prefix_def timeout_suffix_def)
  note reach = assms(13-15)
  have callback: "deadline_trace (executeWithTimeout h queryTimeout db (JStr sql)) =
           (case kill_getConnection db of
              Never \<Rightarrow> []
            | Rejects killError \<Rightarrow> [RejectTimeout msg]
            | Resolves killConn \<Rightarrow>
                GetConnection killConn #
                (case js_toString h connId of
                   Inl killError \<Rightarrow> [RejectTimeout msg]
                 | Inr idText \<Rightarrow>
                     Query killConn (ascii ''KILL QUERY '' @ idText) #
                     (case kill_query db of
                        Never \<Rightarrow> []
                      | Rejects killError \<Rightarrow> [RejectTimeout msg]
                      | Resolves u \<Rightarrow> [Release killConn, RejectTimeout msg])))"
    unfolding msg [symmetric] by (rule callback_trace [OF reach assms(16)])
  obtain k where call: "tools_call h queryTimeout db rid params =
      after_rows (executeWithTimeout h queryTimeout db (JStr sql)) k"
    using tools_call_reaches_executor [OF assms(6-9)] by blast
  have fails: "outcome (executeWithTimeout h queryTimeout db (JStr sql)) = Rejects (Error msg)
      \<and> outcome (handleRequest h queryTimeout db line) =
          Resolves (Some
            (JObj [(ascii ''jsonrpc'', JStr (ascii ''2.0'')), (ascii ''id'', rid),
                   (ascii ''error'',
                    JObj [(ascii ''code'', JNum (- 32603)),
                          (ascii ''message'', JStr msg)])]))"
    if "unsettled_at_reject (statement db)"
      and "case kill_getConnection db of
             Never \<Rightarrow> False
           | Rejects killError \<Rightarrow> True
           | Resolves killConn \<Rightarrow>
               (case js_toString h connId of
                  Inl killError \<Rightarrow> True
                | Inr idText \<Rightarrow> kill_query db \<noteq> Never)"
  proof -
    have run: "outcome (executeWithTimeout h queryTimeout db (JStr sql)) =
        Rejects (Error msg)"
      using callback_rejects [OF reach that, of queryTimeout sql] msg by simp
    then have "outcome (catch_error h rid (tools_call h queryTimeout db rid params)) =
        Resolves (Some (envelope_error rid (- 32603) msg))"
      using rejected_call_surfaced [OF assms(3), of _ "Error msg" h k] call
      by (simp add: message_def)
    then show ?thesis
      using run handleRequest_tools_call [OF assms(1-4), of queryTimeout db] assms(5)
      by (simp add: envelope_error_def)
  qed
  show ?thesis
    using callback fails statement_wins [OF reach, of _ h queryTimeout sql]
    by (simp add: on_line_def)
qed

lemma sample_parse_query: "JSON_parse sample_host query_line = Some query_request"
  by (simp add: sample_host_def sample_parse_def sample_lines ascii_def)

lemma query_request_fields:
  "get_property query_request (ascii ''id'') = JNum 5"
  "get_property query_request (ascii ''method'') = JStr (ascii ''tools/call'')"
  "get_property query_request (ascii ''params'') =
     JObj [(ascii ''name'', JStr (ascii ''query'')),
           (ascii ''arguments'', JObj [(ascii ''sql'', JStr (ascii ''select sleep(60)''))])]"
  "get_property
     (JObj [(ascii ''name'', JStr (ascii ''query'')),
            (ascii ''arguments'',
             JObj [(ascii ''sql'', JStr (ascii ''select sleep(60)'') :: unit jsval)])])
     (ascii ''name'') = JStr (ascii ''query'')"
  "get_property
     (JObj [(ascii ''name'', JStr (ascii ''query'')),
            (ascii ''arguments'',
             JObj [(ascii ''sql'', JStr (ascii ''select sleep(60)'') :: unit jsval)])])
     (ascii ''arguments'') = JObj [(ascii ''sql'', JStr (ascii ''select sleep(60)''))]"
  "get_property (JObj [(ascii ''sql'', JStr (ascii ''select sleep(60)'') :: unit jsval)])
     (ascii ''sql'') = JStr (ascii ''select sleep(60)'')"
  by (simp_all add: query_request_def get_property_def ascii_def)

lemma query_request_present:
  "\<not> nullish (JNum 5 :: unit jsval)"
  "\<not> nullish (JObj [(ascii ''name'', JStr (ascii ''query'')),
            (ascii ''arguments'',
             JObj [(ascii ''sql'', JStr (ascii ''select sleep(60)'') :: unit jsval)])])"
  "\<not> nullish (JObj [(ascii ''sql'', JStr (ascii ''select sleep(60)'') :: unit jsval)])"
  by (simp_all add: nullish_def)

lemma sample_kill_scenario:
  "unsettled_at_reject (statement sample_db)"
  "deadline_fires (statement sample_db)"
  "kill_getConnection sample_db = Resolves 2"
  "kill_query sample_db = Rejects (DriverError (ascii ''Unknown thread id: 42''))"
  by (simp_all add: sample_db_def unsettled_at_reject_def deadline_fires_def)

lemma thirty_seconds_text:
  "(Parsed (Finite 30) = Parsed (Finite 30) \<and> (30::int) \<noteq> 0 \<and> \<bar>30::int\<bar> * 1000 < 2 ^ 53
      \<and> ascii ''30'' = signed_decimal 30)
   \<or> ((Parsed (Finite 30) = NaN \<or> Parsed (Finite 30) = Parsed (Finite 0))
      \<and> ascii ''30'' = ascii ''10'')
   \<or> (Parsed (Finite 30) = Parsed (Finite 30) \<and> 2 ^ 53 \<le> \<bar>30::int\<bar> * 1000
      \<and> ascii ''30'' =
          jsnumber_toString sample_host
            (floor_div1000 sample_host (largeTimes1000 sample_host 30)))
   \<or> (Parsed (Finite 30) = Parsed PlusInfinity \<and> ascii ''30'' = ascii ''Infinity'')
   \<or> (Parsed (Finite 30) = Parsed MinusInfinity \<and> ascii ''30'' = ascii ''-Infinity'')"
  using thirty_seconds by simp

lemma query_tool_called:
  "((JStr (ascii ''query'') :: unit jsval) = JStr (ascii ''query'')
      \<and> \<not> nullish (JObj [(ascii ''sql'', JStr (ascii ''select sleep(60)'') :: unit jsval)])
      \<and> get_property (JObj [(ascii ''sql'', JStr (ascii ''select sleep(60)'') :: unit jsval)])
           (ascii ''sql'') = JStr (ascii ''select sleep(60)''))
   \<or> ((JStr (ascii ''query'') :: unit jsval) = JStr (ascii ''list_tables'')
      \<and> ascii ''select sleep(60)'' = ascii ''SHOW TABLE STATUS'')
   \<or> ((JStr (ascii ''query'') :: unit jsval) = JStr (ascii ''describe_table'')
      \<and> \<not> nullish (JObj [(ascii ''sql'', JStr (ascii ''select sleep(60)'') :: unit jsval)])
      \<and> js_toString sample_host
           (get_property (JObj [(ascii ''sql'', JStr (ascii ''select sleep(60)'') :: unit jsval)])
              (ascii ''table'')) = Inr []
      \<and> ascii ''select sleep(60)'' = ascii ''SHOW FULL COLUMNS FROM '' @ [])"
  using query_request_fields(6) query_request_present(3) by simp

theorem deadline_kills_and_fails_witness:
  "JSON_parse sample_host query_line = Some query_request
   \<and> get_property query_request (ascii ''id'') = JNum 5
   \<and> \<not> nullish (JNum 5 :: unit jsval)
   \<and> get_property query_request (ascii ''method'') = JStr (ascii ''tools/call'')
   \<and> (30::int) \<noteq> 0 \<and> \<bar>30::int\<bar> * 1000 < 2 ^ 53 \<and> signed_decimal 30 = ascii ''30''
   \<and> pool_getConnection sample_db = Resolves 1
   \<and> connection_id sample_db = Resolves [JObj [(ascii ''id'', JNum 42)]]
   \<and> first_row_id [JObj [(ascii ''id'', JNum 42 :: unit jsval)]] = Inr (JNum 42)
   \<and> deadline_fires (statement sample_db)
   \<and> unsettled_at_reject (statement sample_db)
   \<and> kill_getConnection sample_db = Resolves 2
   \<and> js_toString sample_host (JNum 42) = Inr (ascii ''42'')
   \<and> kill_query sample_db = Rejects (DriverError (ascii ''Unknown thread id: 42''))
   \<and> deadline_trace (executeWithTimeout sample_host
                        (loadQueryTimeout sample_host (Parsed (Finite 30))) sample_db
                        (JStr (ascii ''select sleep(60)''))) =
       [GetConnection 2, Query 2 (ascii ''KILL QUERY '' @ ascii ''42''),
        RejectTimeout
          ([0x67E5, 0x8BE2, 0x8D85, 0x65F6, 0xFF1A, 0x67E5, 0x8BE2, 0x6267, 0x884C, 0x8D85,
            0x8FC7, 0x20]
           @ ascii ''30''
           @ [0x20, 0x79D2, 0x672A, 0x54CD, 0x5E94, 0xFF0C, 0x5DF2, 0x81EA, 0x52A8, 0x7EC8,
              0x6B62, 0x3002, 0x8BF7, 0x91CD, 0x65B0, 0x5C1D, 0x8BD5, 0x6267, 0x884C,
              0xFF01])]
   \<and> outcome (handleRequest sample_host (loadQueryTimeout sample_host (Parsed (Finite 30)))
                sample_db query_line) =
       Resolves (Some
         (JObj [(ascii ''jsonrpc'', JStr (ascii ''2.0'')), (ascii ''id'', JNum 5),
                (ascii ''error'',
                 JObj [(ascii ''code'', JNum (- 32603)),
                       (ascii ''message'',
                        JStr ([0x67E5, 0x8BE2, 0x8D85, 0x65F6, 0xFF1A, 0x67E5, 0x8BE2,
                               0x6267, 0x884C, 0x8D85, 0x8FC7, 0x20]
                              @ ascii ''30''
                              @ [0x20, 0x79D2, 0x672A, 0x54CD, 0x5E94, 0xFF0C, 0x5DF2,
                                 0x81EA, 0x52A8, 0x7EC8, 0x6B62, 0x3002, 0x8BF7, 0x91CD,
                                 0x65B0, 0x5C1D, 0x8BD5, 0x6267, 0x884C, 0xFF01]))])]))"
proof -
  note t = deadline_kills_and_fails [OF sample_parse_query query_request_fields(1)
        query_request_present(1) query_request_fields(2,3) query_request_present(2)
        query_request_fields(4,5) query_tool_called thirty_seconds_text refl refl
        sample_reaches_execute sample_connId sample_kill_scenario(2)]
  have idText: "js_toString sample_host (JNum 42) = Inr (ascii ''42'')"
    by (rule sample_idText)
  have answered: "case kill_getConnection sample_db of
           Never \<Rightarrow> False
         | Rejects killError \<Rightarrow> True
         | Resolves killConn \<Rightarrow>
             (case js_toString sample_host (JNum 42) of
                Inl killError \<Rightarrow> True
              | Inr idText \<Rightarrow> kill_query sample_db \<noteq> Never)"
    unfolding idText by (simp add: sample_kill_scenario)
  have trace: "deadline_trace (executeWithTimeout sample_host
                        (loadQueryTimeout sample_host (Parsed (Finite 30))) sample_db
                        (JStr (ascii ''select sleep(60)''))) =
       [GetConnection 2, Query 2 (ascii ''KILL QUERY '' @ ascii ''42''),
        RejectTimeout
          ([0x67E5, 0x8BE2, 0x8D85, 0x65F6, 0xFF1A, 0x67E5, 0x8BE2, 0x6267, 0x884C, 0x8D85,
            0x8FC7, 0x20]
           @ ascii ''30''
           @ [0x20, 0x79D2, 0x672A, 0x54CD, 0x5E94, 0xFF0C, 0x5DF2, 0x81EA, 0x52A8, 0x7EC8,
              0x6B62, 0x3002, 0x8BF7, 0x91CD, 0x65B0, 0x5C1D, 0x8BD5, 0x6267, 0x884C,
              0xFF01])]"
    using conjunct1 [OF t] unfolding idText by (simp add: sample_kill_scenario)
  have response: "outcome (handleRequest sample_host
                (loadQueryTimeout sample_host (Parsed (Finite 30))) sample_db query_line) =
       Resolves (Some
         (JObj [(ascii ''jsonrpc'', JStr (ascii ''2.0'')), (ascii ''id'', JNum 5),
                (ascii ''error'',
                 JObj [(ascii ''code'', JNum (- 32603)),
                       (ascii ''message'',
                        JStr ([0x67E5, 0x8BE2, 0x8D85, 0x65F6, 0xFF1A, 0x67E5, 0x8BE2,
                               0x6267, 0x884C, 0x8D85, 0x8FC7, 0x20]
                              @ ascii ''30''
                              @ [0x20, 0x79D2, 0x672A, 0x54CD, 0x5E94, 0xFF0C, 0x5DF2,
                                 0x81EA, 0x52A8, 0x7EC8, 0x6B62, 0x3002, 0x8BF7, 0x91CD,
                                 0x65B0, 0x5C1D, 0x8BD5, 0x6267, 0x884C, 0xFF01]))])]))"
    using conjunct1 [OF conjunct2 [OF t]] sample_kill_scenario(1) answered by blast
  show ?thesis
    using trace response sample_parse_query query_request_fields(1,2)
      query_request_present(1) thirty_seconds sample_reaches_execute sample_connId
      sample_kill_scenario idText
    by blast
qed

lemma late_result_reaches_execute:
  "pool_getConnection late_result_db = Resolves 1"
  "connection_id late_result_db = Resolves [JObj [(ascii ''id'', JNum 42)]]"
  by (simp_all add: late_result_db_def)

lemma late_result_race:
  "race sample_host (Finite 10000) late_result_db (JNum 42) =
     (Resolves (JArr [JObj [(ascii ''sleep(60)'', JNum 0)]]),
      [GetConnection 2, Query 2 (ascii ''KILL QUERY 42''), Release 2,
       RejectTimeout (timeout_message sample_host (Finite 10000))])"
  by (simp add: race_def deadline_branch_def late_result_db_def Let_def settled_def
      eval_decimal ascii_def)

lemma late_result_run:
  "executeWithTimeout sample_host (Finite 10000) late_result_db (JStr (ascii ''select sleep(60)'')) =
     \<lparr>outcome = Resolves (JArr [JObj [(ascii ''sleep(60)'', JNum 0)]]),
      trace = [GetConnection 1, Query 1 (ascii ''SELECT CONNECTION_ID() as id''),
               SetTimeout (Finite 10000),
               Execute 1 (ascii ''SELECT /*+ MAX_EXECUTION_TIME(10000) */ sleep(60)''),
               ClearTimeout, Release 1],
      deadline_trace = [GetConnection 2, Query 2 (ascii ''KILL QUERY 42''), Release 2,
                        RejectTimeout (timeout_message sample_host (Finite 10000))]\<rparr>"
  by (simp add: executeWithTimeout_def late_result_reaches_execute sample_connId
      late_result_race sample_executeSql Let_def)

lemma late_result_call:
  "tools_call sample_host (Finite 10000) late_result_db (JNum 5)
     (get_property query_request (ascii ''params'')) =
   \<lparr>outcome = Resolves (Some (envelope_result (JNum 5)
        (content_result
           (stringify_indent sample_host (JArr [JObj [(ascii ''sleep(60)'', JNum 0)]]))))),
    trace = [GetConnection 1, Query 1 (ascii ''SELECT CONNECTION_ID() as id''),
               SetTimeout (Finite 10000),
               Execute 1 (ascii ''SELECT /*+ MAX_EXECUTION_TIME(10000) */ sleep(60)''),
               ClearTimeout, Release 1],
    deadline_trace = [GetConnection 2, Query 2 (ascii ''KILL QUERY 42''), Release 2,
                        RejectTimeout (timeout_message sample_host (Finite 10000))]\<rparr>"
  by (simp add: tools_call_def query_request_fields query_request_present Let_def
      read_property_def after_rows_def late_result_run)

text \<open>
  Claim C1 as stated covers every call whose statement has not settled when the timer
  fires. In this scenario the timer fires and the statement resolves while the callback
  awaits its KILL command: the callback does send its KILL command, but \<open>Promise.race\<close>
  takes the rows, the call succeeds and the dispatcher answers with a result envelope.
\<close>

theorem deadline_fails_call_counterexample:
  "deadline_fires (statement late_result_db)
   \<and> deadline_trace (executeWithTimeout sample_host (Finite 10000) late_result_db
                        (JStr (ascii ''select sleep(60)''))) =
       [GetConnection 2, Query 2 (ascii ''KILL QUERY 42''), Release 2,
        RejectTimeout (timeout_message sample_host (Finite 10000))]
   \<and> outcome (executeWithTimeout sample_host (Finite 10000) late_result_db
                 (JStr (ascii ''select sleep(60)''))) =
       Resolves (JArr [JObj [(ascii ''sleep(60)'', JNum 0)]])
   \<and> outcome (handleRequest sample_host (Finite 10000) late_result_db query_line) =
       Resolves (Some
         (JObj [(ascii ''jsonrpc'', JStr (ascii ''2.0'')), (ascii ''id'', JNum 5),
                (ascii ''result'',
                 JObj [(ascii ''content'',
                        JArr [JObj [(ascii ''type'', JStr (ascii ''text'')),
                                    (ascii ''text'',
                                     JStr (JSON_stringify_indent sample_host
                                             (JArr [JObj [(ascii ''sleep(60)'',
                                                           JNum 0)]])))]])])]))"
proof -
  have a: "deadline_fires (statement late_result_db)"
    by (simp add: late_result_db_def deadline_fires_def)
  have b: "outcome (handleRequest sample_host (Finite 10000) late_result_db query_line) =
       Resolves (Some (envelope_result (JNum 5)
         (content_result
            (stringify_indent sample_host (JArr [JObj [(ascii ''sleep(60)'', JNum 0)]])))))"
    using handleRequest_tools_call [OF sample_parse_query query_request_fields(1)
        query_request_present(1) query_request_fields(2), of "Finite 10000" late_result_db]
    by (simp add: late_result_call catch_error_def)
  show ?thesis
    using a b
    by (simp add: late_result_run envelope_result_def content_result_def
        stringify_indent_def)
qed

end
